theory Spec2Isabelle
  imports Complex_Main
begin

section \<open>Tensors\<close>

text \<open>
  A torch tensor or numpy array is modelled by its shape and its entries, the entries as a
  function of the index list. Entries are real numbers: the rounding of double precision
  arithmetic is not modelled, so every sum below is an exact sum, and the casts between
  the precision of the model and double precision (\<open>.to(_dref)\<close>, \<open>.double()\<close>) are the
  identity. A tensor built by \<open>tensor_of\<close> is zero outside its shape, so that two
  tensors with the same shape and the same entries inside it are equal.
\<close>

record tensor =
  shape :: "nat list"
  entry :: "nat list \<Rightarrow> real"

datatype error =
  RuntimeError | AttributeError | StopIteration | ValueError | IndexError | ZeroDivisionError

text \<open>An index list lies inside a shape.\<close>

definition inside :: "nat list \<Rightarrow> nat list \<Rightarrow> bool" where
  "inside ix sh = list_all2 (<) ix sh"

definition tensor_of :: "nat list \<Rightarrow> (nat list \<Rightarrow> real) \<Rightarrow> tensor" where
  "tensor_of sh f = \<lparr>shape = sh, entry = (\<lambda>ix. if inside ix sh then f ix else 0)\<rparr>"

definition ndim :: "tensor \<Rightarrow> nat" where
  "ndim t = length (shape t)"

definition numel :: "tensor \<Rightarrow> nat" where
  "numel t = prod_list (shape t)"

definition zeros :: "nat list \<Rightarrow> tensor" where
  "zeros sh = tensor_of sh (\<lambda>ix. 0)"

definition zeros_like :: "tensor \<Rightarrow> tensor" where
  "zeros_like t = zeros (shape t)"

definition ones_like :: "tensor \<Rightarrow> tensor" where
  "ones_like t = tensor_of (shape t) (\<lambda>ix. 1)"

text \<open>A Python float, as the array of no axes it behaves like in numpy arithmetic.\<close>

definition scalar :: "real \<Rightarrow> tensor" where
  "scalar x = tensor_of [] (\<lambda>ix. x)"

text \<open>Sequencing of computations that may raise.\<close>

definition bind_res :: "error + 'a \<Rightarrow> ('a \<Rightarrow> error + 'b) \<Rightarrow> error + 'b" where
  "bind_res m f = (case m of Inl e \<Rightarrow> Inl e | Inr x \<Rightarrow> f x)"

text \<open>A list comprehension whose body may raise: the first error ends it.\<close>

fun collect :: "('a \<Rightarrow> error + 'b) \<Rightarrow> 'a list \<Rightarrow> error + 'b list" where
  "collect f [] = Inr []"
| "collect f (x # xs) =
     bind_res (f x) (\<lambda>y. bind_res (collect f xs) (\<lambda>ys. Inr (y # ys)))"

text \<open>\<open>dm.sum(0)\<close>: the leading axis is summed away. It needs an axis to sum.\<close>

definition sum0 :: "tensor \<Rightarrow> error + tensor" where
  "sum0 t = (case shape t of [] \<Rightarrow> Inl ValueError
             | n # sh \<Rightarrow> Inr (tensor_of sh (\<lambda>ix. \<Sum>c<n. entry t (c # ix))))"

text \<open>\<open>t.unsqueeze(0)\<close> puts an axis of extent one in front.\<close>

definition unsqueeze0 :: "tensor \<Rightarrow> tensor" where
  "unsqueeze0 t = tensor_of (1 # shape t) (\<lambda>ix. entry t (tl ix))"

text \<open>
  The gradient that flows back through \<open>unsqueeze(0)\<close>: the leading axis of extent one
  is dropped again.
\<close>

definition squeeze0 :: "tensor \<Rightarrow> tensor" where
  "squeeze0 t = tensor_of (tl (shape t)) (\<lambda>ix. entry t (0 # ix))"

text \<open>
  \<open>torch.cat(ts, dim=-1)\<close>. An empty list of tensors is refused, and so are tensors
  that have no axis or whose shapes differ before the last axis.
\<close>

fun cat_entry :: "tensor list \<Rightarrow> nat list \<Rightarrow> nat \<Rightarrow> real" where
  "cat_entry [] b j = 0"
| "cat_entry (t # ts) b j =
     (if j < last (shape t) then entry t (b @ [j]) else cat_entry ts b (j - last (shape t)))"

definition cat_last :: "tensor list \<Rightarrow> error + tensor" where
  "cat_last ts =
     (case ts of [] \<Rightarrow> Inl RuntimeError
      | t # _ \<Rightarrow>
          if (\<forall>u \<in> set ts. shape u \<noteq> [] \<and> butlast (shape u) = butlast (shape t))
          then Inr (tensor_of (butlast (shape t) @ [sum_list (map (\<lambda>u. last (shape u)) ts)])
                      (\<lambda>ix. cat_entry ts (butlast ix) (last ix)))
          else Inl RuntimeError)"

text \<open>
  \<open>torch.split(t, sizes, -1)\<close>: consecutive pieces of the last axis, of the given
  extents, which must add up to the extent of that axis.
\<close>

fun split_from :: "tensor \<Rightarrow> nat \<Rightarrow> nat list \<Rightarrow> tensor list" where
  "split_from t off [] = []"
| "split_from t off (n # ns) =
     tensor_of (butlast (shape t) @ [n]) (\<lambda>ix. entry t (butlast ix @ [off + last ix]))
       # split_from t (off + n) ns"

definition split_last :: "tensor \<Rightarrow> nat list \<Rightarrow> error + tensor list" where
  "split_last t sizes =
     (if shape t \<noteq> [] \<and> sum_list sizes = last (shape t) then Inr (split_from t 0 sizes)
      else Inl RuntimeError)"





section \<open>Projected density matrix and descriptor (scf.py)\<close>

text \<open>
  \<open>torch.einsum('rap,...rs,saq->...apq', po1, dm, po2)\<close>: the overlaps have three axes,
  \<open>dm\<close> at least two; the two last axes of \<open>dm\<close> have the extents of the first axes
  of \<open>po1\<close> and \<open>po2\<close>; the leading axes of \<open>dm\<close> are the ellipsis and lead the
  result. The labels \<open>r\<close> and \<open>s\<close> are summed over their whole extent. Operands
  whose extents for one label differ are refused with a RuntimeError. (torch accepts an
  extent of one beside another extent and broadcasts it; the model refuses that too, so
  what is proved of a call that returns is proved of operands with equal extents.)
\<close>

definition einsum_rap_rs_saq :: "tensor \<Rightarrow> tensor \<Rightarrow> tensor \<Rightarrow> error + tensor" where
  "einsum_rap_rs_saq po1 dm po2 =
     (if length (shape po1) = 3 \<and> length (shape po2) = 3 \<and> 2 \<le> length (shape dm)
         \<and> drop (length (shape dm) - 2) (shape dm) = [shape po1 ! 0, shape po2 ! 0]
         \<and> shape po1 ! 1 = shape po2 ! 1
      then Inr (tensor_of
                  (take (length (shape dm) - 2) (shape dm)
                     @ [shape po1 ! 1, shape po1 ! 2, shape po2 ! 2])
                  (\<lambda>ix. \<Sum>r<shape po1 ! 0. \<Sum>s<shape po2 ! 0.
                           entry po1 [r, ix ! (length ix - 3), ix ! (length ix - 2)]
                         * entry dm (take (length ix - 3) ix @ [r, s])
                         * entry po2 [s, ix ! (length ix - 3), ix ! (length ix - 1)]))
      else Inl RuntimeError)"

definition t_make_pdm :: "tensor \<Rightarrow> tensor list \<Rightarrow> error + tensor list" where
  "t_make_pdm dm ovlp_shells = collect (\<lambda>po. einsum_rap_rs_saq po dm po) ovlp_shells"

text \<open>
  The symmetric eigensolver behind \<open>torch.symeig\<close> is not code of this repository. It is
  a parameter of the model: for an \<open>n\<close> by \<open>n\<close> matrix it gives the \<open>n\<close> eigenvalues
  \<open>w k\<close> and the matrix \<open>v i k\<close> of eigenvectors. Nothing is assumed about it.
\<close>

type_synonym eigensolver = "nat \<Rightarrow> (nat \<Rightarrow> nat \<Rightarrow> real) \<Rightarrow> (nat \<Rightarrow> real) \<times> (nat \<Rightarrow> nat \<Rightarrow> real)"

text \<open>The square matrix of a batched tensor at the leading indices \<open>b\<close>.\<close>

definition matrix_at :: "tensor \<Rightarrow> nat list \<Rightarrow> nat \<Rightarrow> nat \<Rightarrow> real" where
  "matrix_at t b = (\<lambda>i j. entry t (b @ [i, j]))"

text \<open>
  \<open>torch.symeig(pdm, eigenvectors=True)[0]\<close>, batched over the leading axes. The two
  last axes must form square matrices.
\<close>

definition t_shell_eig :: "eigensolver \<Rightarrow> tensor \<Rightarrow> error + tensor" where
  "t_shell_eig eigh pdm =
     (if 2 \<le> length (shape pdm) \<and> last (shape pdm) = last (butlast (shape pdm))
      then Inr (tensor_of (butlast (shape pdm))
                  (\<lambda>ix. fst (eigh (last (shape pdm)) (matrix_at pdm (butlast ix))) (last ix)))
      else Inl RuntimeError)"

definition t_make_eig :: "eigensolver \<Rightarrow> tensor \<Rightarrow> tensor list \<Rightarrow> error + tensor" where
  "t_make_eig eigh dm ovlp_shells =
     bind_res (t_make_pdm dm ovlp_shells) (\<lambda>pdm_shells.
     bind_res (collect (t_shell_eig eigh) pdm_shells) (\<lambda>eig_shells.
     cat_last eig_shells))"

section \<open>Correction energy and potential (scf.py, \<open>t_get_corr\<close>)\<close>

text \<open>
  The differentiable model is not code of this repository either. \<open>kind\<close> says what
  the Python object is: an \<open>nn.Module\<close> (with or without parameters) or some other
  callable, which has no \<open>parameters\<close> method. \<open>forward\<close> is the call of the model,
  which may raise; \<open>grad_input x g\<close> is what reverse-mode differentiation of that call at
  the input \<open>x\<close> sends back to \<open>x\<close> for the cotangent \<open>g\<close> of the output. Nothing
  is assumed about either.
\<close>

datatype model_kind = Module bool | Callable

record model =
  kind :: model_kind
  forward :: "tensor \<Rightarrow> error + tensor"
  grad_input :: "tensor \<Rightarrow> tensor \<Rightarrow> tensor"

text \<open>
  \<open>_dref = next(model.parameters()) if isinstance(model, nn.Module) else DEVICE\<close>: only
  a module without any parameter raises here.
\<close>

definition dref_of :: "model \<Rightarrow> error + unit" where
  "dref_of m = (case kind m of Module has_params \<Rightarrow>
                   if has_params then Inr () else Inl StopIteration
                | Callable \<Rightarrow> Inr ())"

text \<open>
  Reverse mode through \<open>torch.symeig\<close>, as torch defines it: for the cotangent \<open>g\<close> of
  the eigenvalues the matrix \<open>V diag(g) V\<^sup>T\<close>, averaged with its transpose.
\<close>

definition symeig_backward :: "eigensolver \<Rightarrow> tensor \<Rightarrow> tensor \<Rightarrow> tensor" where
  "symeig_backward eigh pdm g =
     tensor_of (shape pdm)
       (\<lambda>ix. let b = take (length ix - 2) ix;
                  i = ix ! (length ix - 2);
                  j = ix ! (length ix - 1);
                  n = last (shape pdm);
                  v = snd (eigh n (matrix_at pdm b));
                  m = (\<lambda>i j. \<Sum>k<n. v i k * entry g (b @ [k]) * v j k)
              in (m i j + m j i) / 2)"

text \<open>
  Reverse mode through \<open>torch.cat(eig_shells, dim=-1)\<close> and the eigensolver: the
  cotangent of the descriptor is cut into the pieces of the shells, and each piece goes
  back through the eigensolver of its shell. The result is the derivative of the energy
  with respect to the projected density matrix, by shell.
\<close>

definition eig_backward ::
  "eigensolver \<Rightarrow> tensor list \<Rightarrow> tensor \<Rightarrow> tensor list" where
  "eig_backward eigh pdm_shells g_ceig =
     map2 (symeig_backward eigh) pdm_shells
       (split_from g_ceig 0 (map (\<lambda>pdm. last (shape pdm)) pdm_shells))"

text \<open>
  Reverse mode through \<open>einsum('rap,...rs,saq->...apq', po, dm, po)\<close> to \<open>dm\<close>: the
  contraction is linear in \<open>dm\<close>, so the cotangent \<open>g\<close> of the result is contracted
  with the two overlaps over the labels \<open>a\<close>, \<open>p\<close> and \<open>q\<close>.
\<close>

definition einsum_rap_rs_saq_backward ::
  "tensor \<Rightarrow> nat list \<Rightarrow> tensor \<Rightarrow> tensor \<Rightarrow> tensor" where
  "einsum_rap_rs_saq_backward po1 dm_shape g po2 =
     tensor_of dm_shape
       (\<lambda>ix. \<Sum>a<shape po1 ! 1. \<Sum>p<shape po1 ! 2. \<Sum>q<shape po2 ! 2.
                entry po1 [ix ! (length ix - 2), a, p]
              * entry g (take (length ix - 2) ix @ [a, p, q])
              * entry po2 [ix ! (length ix - 1), a, q])"

text \<open>The gradients that reach one tensor along several paths are added up.\<close>

definition accumulate :: "nat list \<Rightarrow> tensor list \<Rightarrow> tensor" where
  "accumulate sh ts = tensor_of sh (\<lambda>ix. \<Sum>t\<leftarrow>ts. entry t ix)"

text \<open>
  \<open>torch.autograd.grad(ec, dm, torch.ones_like(ec))\<close> in \<open>t_get_corr\<close>: the unit
  cotangent goes back through the model, the concatenation, the eigensolver and the
  projection of every shell.
\<close>

definition grad_e_pdm ::
  "eigensolver \<Rightarrow> model \<Rightarrow> tensor \<Rightarrow> tensor list \<Rightarrow> tensor \<Rightarrow> tensor \<Rightarrow> error + tensor list" where
  "grad_e_pdm eigh m dm ovlp_shells ceig ec =
     bind_res (t_make_pdm dm ovlp_shells) (\<lambda>pdm_shells.
     Inr (eig_backward eigh pdm_shells (grad_input m ceig (ones_like ec))))"

definition autograd_grad_dm ::
  "eigensolver \<Rightarrow> model \<Rightarrow> tensor \<Rightarrow> tensor list \<Rightarrow> tensor \<Rightarrow> tensor \<Rightarrow> error + tensor" where
  "autograd_grad_dm eigh m dm ovlp_shells ceig ec =
     bind_res (grad_e_pdm eigh m dm ovlp_shells ceig ec) (\<lambda>gedm_shells.
     Inr (accumulate (shape dm)
            (map2 (\<lambda>po g. einsum_rap_rs_saq_backward po (shape dm) g po)
               ovlp_shells gedm_shells)))"

definition t_get_corr ::
  "eigensolver \<Rightarrow> model \<Rightarrow> tensor \<Rightarrow> tensor list \<Rightarrow> bool \<Rightarrow> error + tensor \<times> tensor option" where
  "t_get_corr eigh m dm ovlp_shells with_vc =
     bind_res (t_make_eig eigh dm ovlp_shells) (\<lambda>ceig.
     bind_res (dref_of m) (\<lambda>_.
     bind_res (forward m ceig) (\<lambda>ec.
     if \<not> with_vc then Inr (ec, None)
     else bind_res (autograd_grad_dm eigh m dm ovlp_shells ceig ec) (\<lambda>vc.
          Inr (ec, Some vc)))))"

text \<open>
  The derivative of the energy with respect to the projected density matrix, by shell,
  that the call of \<open>torch.autograd.grad\<close> in \<open>t_get_corr\<close> passes through: the steps
  of \<open>t_get_corr\<close> up to that intermediate result.
\<close>

definition t_get_corr_grad_e_pdm ::
  "eigensolver \<Rightarrow> model \<Rightarrow> tensor \<Rightarrow> tensor list \<Rightarrow> error + tensor list" where
  "t_get_corr_grad_e_pdm eigh m dm ovlp_shells =
     bind_res (t_make_eig eigh dm ovlp_shells) (\<lambda>ceig.
     bind_res (dref_of m) (\<lambda>_.
     bind_res (forward m ceig) (\<lambda>ec.
     grad_e_pdm eigh m dm ovlp_shells ceig ec)))"

section \<open>The solver object (scf.py, \<open>CorrMixin\<close>, \<open>NetMixin\<close>, \<open>DSCF\<close>, \<open>UDSCF\<close>)\<close>

text \<open>
  What the code reads of a pyscf molecule: the number of atoms, the number of atomic
  orbitals, the coordinates of the atoms, and for every atom the range of the orbitals
  centred on it (the two last columns of \<open>aoslice_by_atom()\<close>).
\<close>

record mole =
  natm :: nat
  nao :: nat
  atom_coords :: "(real \<times> real \<times> real) list"
  aoslice :: "nat \<Rightarrow> nat \<times> nat"

definition aoslice_by_atom :: "mole \<Rightarrow> nat \<Rightarrow> error + nat \<times> nat" where
  "aoslice_by_atom m ia = (if ia < natm m then Inr (aoslice m ia) else Inl IndexError)"

text \<open>Arguments whose default is the number 0 and that are arrays otherwise.\<close>

datatype array_like = Number real | Array tensor



text \<open>
  One solver object: the fields \<open>NetMixin\<close> keeps, and the methods of the base
  mean-field class that the mixins call through \<open>super()\<close> or \<open>self\<close>. The base class
  is pyscf's, so its methods are fields of the model about which nothing is assumed.
  \<open>is_uhf\<close> is \<open>isinstance(self, scf.uhf.UHF)\<close>.
\<close>

record 'b dscf =
  mol :: mole
  net :: "model option"
  is_uhf :: bool
  pbas :: 'b
  shell_sec :: "nat list"
  pmol :: mole
  t_ovlp_shells :: "tensor list"
  make_rdm1 :: tensor
  get_hcore :: tensor
  base_get_veff :: "mole \<Rightarrow> tensor \<Rightarrow> array_like \<Rightarrow> array_like \<Rightarrow> int \<Rightarrow> error + tensor"
  base_energy_elec :: "tensor \<Rightarrow> tensor \<Rightarrow> tensor \<Rightarrow> error + tensor \<times> tensor"

text \<open>\<open>t_ec.item() if t_ec.nelement()==1 else t_ec.detach().cpu().numpy()\<close>\<close>

definition item_or_array :: "tensor \<Rightarrow> tensor" where
  "item_or_array t = (if numel t = 1 then scalar (entry t (replicate (ndim t) 0)) else t)"

text \<open>\<open>if dm.ndim >= 3 and isinstance(self, scf.uhf.UHF): dm = dm.sum(0)\<close>\<close>

definition spin_sum :: "bool \<Rightarrow> tensor \<Rightarrow> error + tensor" where
  "spin_sum uhf dm = (if 3 \<le> ndim dm \<and> uhf then sum0 dm else Inr dm)"

definition get_corr :: "eigensolver \<Rightarrow> 'b dscf \<Rightarrow> tensor option \<Rightarrow> error + tensor \<times> tensor" where
  "get_corr eigh self dm_arg =
     (let dm = (case dm_arg of None \<Rightarrow> make_rdm1 self | Some d \<Rightarrow> d) in
      case net self of
        None \<Rightarrow> Inr (scalar 0, zeros_like dm)
      | Some m \<Rightarrow>
          bind_res (spin_sum (is_uhf self) dm) (\<lambda>t_dm.
          bind_res (t_get_corr eigh m t_dm (t_ovlp_shells self) True) (\<lambda>(t_ec, t_vc).
          case t_vc of None \<Rightarrow> Inl ValueError
          | Some vc \<Rightarrow> Inr (item_or_array t_ec, vc))))"

definition make_eig :: "eigensolver \<Rightarrow> 'b dscf \<Rightarrow> tensor option \<Rightarrow> error + tensor" where
  "make_eig eigh self dm_arg =
     (let dm = (case dm_arg of None \<Rightarrow> make_rdm1 self | Some d \<Rightarrow> d) in
      bind_res (spin_sum (is_uhf self) dm) (\<lambda>t_dm.
      t_make_eig eigh t_dm (t_ovlp_shells self)))"








section \<open>Analytic gradient (grad.py)\<close>

text \<open>
  \<open>torch.einsum('rap,rs,saq->apq', po, dm, po)\<close>: the contraction of \<open>t_make_pdm\<close>
  without the ellipsis, so \<open>dm\<close> has exactly two axes.
\<close>

definition einsum_rap_rs_saq_2d :: "tensor \<Rightarrow> tensor \<Rightarrow> tensor \<Rightarrow> error + tensor" where
  "einsum_rap_rs_saq_2d po1 dm po2 =
     (if length (shape dm) = 2 then einsum_rap_rs_saq po1 dm po2 else Inl RuntimeError)"

text \<open>
  \<open>_dref = next(model.parameters())\<close>, without the test for a module that \<open>t_get_corr\<close>
  makes: a callable that is no module has no \<open>parameters\<close>.
\<close>

definition dref_of_module :: "model \<Rightarrow> error + unit" where
  "dref_of_module m = (case kind m of Module has_params \<Rightarrow>
                          if has_params then Inr () else Inl StopIteration
                       | Callable \<Rightarrow> Inl AttributeError)"

text \<open>
  \<open>t_make_grad_e_pdm\<close>. \<open>torch.autograd.grad(ec, pdm_shells)\<close> is given no cotangent,
  which torch allows for an output of one element only; the unit cotangent then goes
  back through the model, \<open>unsqueeze(0)\<close>, the concatenation and the eigensolver.
\<close>

definition t_make_grad_e_pdm ::
  "eigensolver \<Rightarrow> model \<Rightarrow> tensor \<Rightarrow> tensor list \<Rightarrow> error + tensor list" where
  "t_make_grad_e_pdm eigh m dm ovlp_shells =
     bind_res (collect (\<lambda>po. einsum_rap_rs_saq_2d po dm po) ovlp_shells) (\<lambda>pdm_shells.
     bind_res (collect (t_shell_eig eigh) pdm_shells) (\<lambda>eig_shells.
     bind_res (cat_last eig_shells) (\<lambda>c.
     bind_res (dref_of_module m) (\<lambda>_.
     bind_res (forward m (unsqueeze0 c)) (\<lambda>ec.
     if numel ec \<noteq> 1 then Inl RuntimeError
     else Inr (eig_backward eigh pdm_shells
                 (squeeze0 (grad_input m (unsqueeze0 c) (ones_like ec)))))))))"

text \<open>
  A slice \<open>[bg:ed]\<close> along the axis \<open>k\<close>; the bounds are cut to the extent of the
  axis, as Python does.
\<close>

definition slice_axis :: "nat \<Rightarrow> nat \<Rightarrow> nat \<Rightarrow> tensor \<Rightarrow> error + tensor" where
  "slice_axis k bg ed t =
     (if k < length (shape t)
      then let n = shape t ! k; start = min bg n; stop = min ed n
           in Inr (tensor_of ((shape t)[k := stop - start])
                     (\<lambda>ix. entry t (ix[k := start + ix ! k])))
      else Inl IndexError)"

text \<open>\<open>torch.einsum('xrap,rs,saq->xapq', govx, dm, ovlp)\<close>\<close>

definition einsum_xrap_rs_saq :: "tensor \<Rightarrow> tensor \<Rightarrow> tensor \<Rightarrow> error + tensor" where
  "einsum_xrap_rs_saq govx dm ovlp =
     (if length (shape govx) = 4 \<and> length (shape dm) = 2 \<and> length (shape ovlp) = 3
         \<and> shape govx ! 1 = shape dm ! 0 \<and> shape dm ! 1 = shape ovlp ! 0
         \<and> shape govx ! 2 = shape ovlp ! 1
      then Inr (tensor_of [shape govx ! 0, shape govx ! 2, shape govx ! 3, shape ovlp ! 2]
                  (\<lambda>ix. \<Sum>r<shape dm ! 0. \<Sum>s<shape dm ! 1.
                           entry govx [ix ! 0, r, ix ! 1, ix ! 2]
                         * entry dm [r, s]
                         * entry ovlp [s, ix ! 1, ix ! 3]))
      else Inl RuntimeError)"

text \<open>
  The updates in place of \<open>t_make_grad_pdm_x\<close>. The right-hand side must have the shape
  of the part that is updated (an axis of extent one, which torch would broadcast, is
  refused here as any other mismatch).

  \<open>gdmx[ia] -= x\<close>
\<close>

definition isub_atom :: "tensor \<Rightarrow> nat \<Rightarrow> tensor \<Rightarrow> error + tensor" where
  "isub_atom gdmx ia x =
     (if shape gdmx = [] \<or> shape gdmx ! 0 \<le> ia then Inl IndexError
      else if shape x \<noteq> tl (shape gdmx) then Inl RuntimeError
      else Inr (tensor_of (shape gdmx)
                  (\<lambda>ix. if ix ! 0 = ia then entry gdmx ix - entry x (tl ix) else entry gdmx ix)))"

text \<open>\<open>gdmx[ia,:,ia] += gproj[:, ia]\<close>\<close>

definition iadd_block :: "tensor \<Rightarrow> nat \<Rightarrow> tensor \<Rightarrow> error + tensor" where
  "iadd_block gdmx ia gproj =
     (if length (shape gdmx) < 3 \<or> shape gdmx ! 0 \<le> ia \<or> shape gdmx ! 2 \<le> ia
         \<or> length (shape gproj) < 2 \<or> shape gproj ! 1 \<le> ia
      then Inl IndexError
      else if shape gdmx ! 1 # drop 3 (shape gdmx) \<noteq> shape gproj ! 0 # drop 2 (shape gproj)
      then Inl RuntimeError
      else Inr (tensor_of (shape gdmx)
                  (\<lambda>ix. if ix ! 0 = ia \<and> ix ! 2 = ia
                         then entry gdmx ix + entry gproj (ix ! 1 # ia # drop 3 ix)
                         else entry gdmx ix)))"

text \<open>\<open>gdmx += gdmx.clone().transpose(-1,-2)\<close>\<close>

definition swap_last2 :: "nat list \<Rightarrow> nat list" where
  "swap_last2 ix = take (length ix - 2) ix @ [ix ! (length ix - 1), ix ! (length ix - 2)]"

definition iadd_transpose :: "tensor \<Rightarrow> error + tensor" where
  "iadd_transpose gdmx =
     (if length (shape gdmx) < 2 then Inl IndexError
      else if swap_last2 (shape gdmx) \<noteq> shape gdmx then Inl RuntimeError
      else Inr (tensor_of (shape gdmx) (\<lambda>ix. entry gdmx ix + entry gdmx (swap_last2 ix))))"

text \<open>A \<open>for\<close> loop over a list that threads a state and stops at the first error.\<close>

fun for_each :: "('a \<Rightarrow> 's \<Rightarrow> error + 's) \<Rightarrow> 'a list \<Rightarrow> 's \<Rightarrow> error + 's" where
  "for_each f [] s = Inr s"
| "for_each f (x # xs) s = bind_res (f x s) (for_each f xs)"

text \<open>The body of the loop over the moving atom \<open>ia\<close>, for one shell.\<close>

definition grad_pdm_x_atom ::
  "mole \<Rightarrow> tensor \<Rightarrow> tensor \<Rightarrow> tensor \<Rightarrow> tensor \<Rightarrow> nat \<Rightarrow> tensor \<Rightarrow> error + tensor" where
  "grad_pdm_x_atom m dm govx ovlp gproj ia gdmx =
     bind_res (aoslice_by_atom m ia) (\<lambda>(bg, ed).
     bind_res (slice_axis 1 bg ed govx) (\<lambda>govx_ia.
     bind_res (slice_axis 0 bg ed dm) (\<lambda>dm_ia.
     bind_res (einsum_xrap_rs_saq govx_ia dm_ia ovlp) (\<lambda>x.
     bind_res (isub_atom gdmx ia x) (\<lambda>gdmx'.
     iadd_block gdmx' ia gproj)))))"

text \<open>The body of the loop over the shells.\<close>

definition grad_pdm_x_shell ::
  "mole \<Rightarrow> tensor \<Rightarrow> tensor \<Rightarrow> tensor \<Rightarrow> tensor \<Rightarrow> error + tensor" where
  "grad_pdm_x_shell m dm gdmx govx ovlp =
     bind_res (einsum_xrap_rs_saq govx dm ovlp) (\<lambda>gproj.
     bind_res (for_each (grad_pdm_x_atom m dm govx ovlp gproj) [0..<natm m] gdmx) (\<lambda>gdmx'.
     iadd_transpose gdmx'))"

text \<open>
  \<open>t_make_grad_pdm_x\<close>. \<open>zip\<close> stops at the shortest list, so a shell without a
  derivative overlap keeps its zeros.
\<close>

definition t_make_grad_pdm_x ::
  "mole \<Rightarrow> tensor \<Rightarrow> tensor list \<Rightarrow> tensor list \<Rightarrow> error + tensor list" where
  "t_make_grad_pdm_x m dm ovlp_shells ipov_shells =
     bind_res (collect (\<lambda>ov. if shape ov = [] then Inl IndexError else Inr (last (shape ov)))
                 ovlp_shells) (\<lambda>shell_sec.
     let gdmx_shells = map (\<lambda>ss. zeros [natm m, 3, natm m, ss, ss]) shell_sec in
     bind_res (collect (\<lambda>(gdmx, govx, ovlp). grad_pdm_x_shell m dm gdmx govx ovlp)
                 (zip gdmx_shells (zip ipov_shells ovlp_shells))) (\<lambda>updated.
     Inr (updated @ drop (length updated) gdmx_shells)))"

text \<open>\<open>torch.einsum('xrap,apq,saq->xrs', govx, gedm, ovlp)\<close>\<close>

definition einsum_xrap_apq_saq :: "tensor \<Rightarrow> tensor \<Rightarrow> tensor \<Rightarrow> error + tensor" where
  "einsum_xrap_apq_saq govx gedm ovlp =
     (if length (shape govx) = 4 \<and> length (shape gedm) = 3 \<and> length (shape ovlp) = 3
         \<and> shape govx ! 2 = shape gedm ! 0 \<and> shape gedm ! 0 = shape ovlp ! 1
         \<and> shape govx ! 3 = shape gedm ! 1 \<and> shape gedm ! 2 = shape ovlp ! 2
      then Inr (tensor_of [shape govx ! 0, shape govx ! 1, shape ovlp ! 0]
                  (\<lambda>ix. \<Sum>a<shape gedm ! 0. \<Sum>p<shape gedm ! 1. \<Sum>q<shape gedm ! 2.
                           entry govx [ix ! 0, ix ! 1, a, p]
                         * entry gedm [a, p, q]
                         * entry ovlp [ix ! 2, a, q]))
      else Inl RuntimeError)"

text \<open>\<open>torch.einsum('xpq,pq->x', a, b)\<close>, which is also \<open>'xrs,rs->x'\<close>\<close>

definition einsum_xpq_pq :: "tensor \<Rightarrow> tensor \<Rightarrow> error + tensor" where
  "einsum_xpq_pq a b =
     (if length (shape a) = 3 \<and> length (shape b) = 2 \<and> tl (shape a) = shape b
      then Inr (tensor_of [shape a ! 0]
                  (\<lambda>ix. \<Sum>p<shape b ! 0. \<Sum>q<shape b ! 1. entry a [ix ! 0, p, q] * entry b [p, q]))
      else Inl RuntimeError)"

definition scale :: "real \<Rightarrow> tensor \<Rightarrow> tensor" where
  "scale c t = tensor_of (shape t) (\<lambda>ix. c * entry t ix)"

text \<open>The index \<open>i\<close> on the axis \<open>k\<close>: \<open>gedm[ia]\<close> is axis 0, \<open>ginner[:,ia]\<close> axis 1.\<close>

definition index_axis :: "nat \<Rightarrow> nat \<Rightarrow> tensor \<Rightarrow> error + tensor" where
  "index_axis k i t =
     (if k < length (shape t) \<and> i < shape t ! k
      then Inr (tensor_of (take k (shape t) @ drop (Suc k) (shape t))
                  (\<lambda>ix. entry t (take k ix @ [i] @ drop k ix)))
      else Inl IndexError)"

text \<open>\<open>dec[k] += v\<close>\<close>

definition iadd_row :: "tensor \<Rightarrow> nat \<Rightarrow> tensor \<Rightarrow> error + tensor" where
  "iadd_row dec k v =
     (if shape dec = [] \<or> shape dec ! 0 \<le> k then Inl IndexError
      else if shape v \<noteq> tl (shape dec) then Inl RuntimeError
      else Inr (tensor_of (shape dec)
                  (\<lambda>ix. if ix ! 0 = k then entry dec ix + entry v (tl ix) else entry dec ix)))"

text \<open>The body of the loop over \<open>enumerate(atmlst)\<close> in \<open>t_grad_corr\<close>.\<close>

definition grad_corr_atom ::
  "mole \<Rightarrow> tensor \<Rightarrow> tensor \<Rightarrow> tensor \<Rightarrow> tensor \<Rightarrow> nat \<times> nat \<Rightarrow> tensor \<Rightarrow> error + tensor" where
  "grad_corr_atom m dm gedm ginner gouter k_ia dec =
     (case k_ia of (k, ia) \<Rightarrow>
        bind_res (aoslice_by_atom m ia) (\<lambda>(bg, ed).
        bind_res (index_axis 1 ia ginner) (\<lambda>ginner_ia.
        bind_res (index_axis 0 ia gedm) (\<lambda>gedm_ia.
        bind_res (einsum_xpq_pq ginner_ia gedm_ia) (\<lambda>v1.
        bind_res (iadd_row dec k v1) (\<lambda>dec'.
        bind_res (slice_axis 1 bg ed gouter) (\<lambda>gouter_ia.
        bind_res (slice_axis 0 bg ed dm) (\<lambda>dm_ia.
        bind_res (einsum_xpq_pq gouter_ia dm_ia) (\<lambda>v2.
        iadd_row dec' k v2)))))))))"

definition grad_corr_shell ::
  "mole \<Rightarrow> tensor \<Rightarrow> nat list \<Rightarrow> tensor \<times> tensor \<times> tensor \<Rightarrow> tensor \<Rightarrow> error + tensor" where
  "grad_corr_shell m dm atmlst shell dec =
     (case shell of (gedm, govx, ovlp) \<Rightarrow>
        bind_res (einsum_xrap_rs_saq govx dm ovlp) (\<lambda>g.
        bind_res (einsum_xrap_apq_saq govx gedm ovlp) (\<lambda>h.
        for_each (grad_corr_atom m dm gedm (scale 2 g) (scale 2 (scale (- 1) h)))
          (zip [0..<length atmlst] atmlst) dec)))"

definition t_grad_corr ::
  "eigensolver \<Rightarrow> mole \<Rightarrow> model \<Rightarrow> tensor \<Rightarrow> tensor list \<Rightarrow> tensor list \<Rightarrow> nat list option
     \<Rightarrow> error + tensor" where
  "t_grad_corr eigh m mdl dm ovlp_shells ipov_shells atmlst_arg =
     (let atmlst = (case atmlst_arg of None \<Rightarrow> [0..<natm m] | Some l \<Rightarrow> l) in
      bind_res (t_make_grad_e_pdm eigh mdl dm ovlp_shells) (\<lambda>gedm_shells.
      for_each (grad_corr_shell m dm atmlst)
        (zip gedm_shells (zip ipov_shells ovlp_shells))
        (zeros [length atmlst, 3])))"

section \<open>Cached integrals, reset and the gradient scanner\<close>

text \<open>
  pyscf itself is outside the repository: the integral provider \<open>gto.intor_cross\<close>,
  the construction of a molecule from atoms and a basis (\<open>gto.Mole.build\<close>), the change
  of the geometry of a molecule (\<open>set_geom_\<close>) and the density matrix the SCF iteration
  of a solver ends with are parameters of the model. \<open>intor_cross\<close> gives the matrix
  \<open>[nao, pnao]\<close> for \<open>int1e_ovlp\<close> and the three matrices \<open>[3, nao, pnao]\<close> for
  \<open>int1e_ipovlp\<close>.
\<close>

record 'b pyscf =
  intor_cross :: "string \<Rightarrow> mole \<Rightarrow> mole \<Rightarrow> tensor"
  build_mole :: "(string \<times> real \<times> real \<times> real) list \<Rightarrow> 'b \<Rightarrow> mole"
  set_geom :: "mole \<Rightarrow> (real \<times> real \<times> real) list \<Rightarrow> mole"
  kernel_rdm1 :: "'b dscf \<Rightarrow> tensor"

text \<open>Reshaping keeps the entries in row-major order.\<close>

fun flat_index :: "nat list \<Rightarrow> nat list \<Rightarrow> nat" where
  "flat_index (n # sh) (i # ix) = i * prod_list sh + flat_index sh ix"
| "flat_index sh ix = 0"

fun unflatten :: "nat list \<Rightarrow> nat \<Rightarrow> nat list" where
  "unflatten [] k = []"
| "unflatten (n # sh) k = (k div prod_list sh) # unflatten sh (k mod prod_list sh)"

definition reshape :: "tensor \<Rightarrow> nat list \<Rightarrow> error + tensor" where
  "reshape t sh =
     (if prod_list sh = numel t
      then Inr (tensor_of sh (\<lambda>ix. entry t (unflatten (shape t) (flat_index sh ix))))
      else Inl ValueError)"

text \<open>\<open>t.reshape(d1, ..., dk, -1)\<close>: the last extent is what is left.\<close>

definition reshape_rest :: "tensor \<Rightarrow> nat list \<Rightarrow> error + tensor" where
  "reshape_rest t sh =
     (if prod_list sh = 0 \<or> numel t mod prod_list sh \<noteq> 0 then Inl RuntimeError
      else reshape t (sh @ [numel t div prod_list sh]))"

definition gen_proj_mol :: "'b pyscf \<Rightarrow> mole \<Rightarrow> 'b \<Rightarrow> mole" where
  "gen_proj_mol py m basis = build_mole py (map (\<lambda>coord. (''Ne'', coord)) (atom_coords m)) basis"

definition proj_intor :: "'b pyscf \<Rightarrow> 'b dscf \<Rightarrow> string \<Rightarrow> tensor" where
  "proj_intor py self intor = intor_cross py intor (mol self) (pmol self)"

definition proj_ovlp :: "'b pyscf \<Rightarrow> 'b dscf \<Rightarrow> error + tensor" where
  "proj_ovlp py self =
     (if natm (mol self) = 0 then Inl ZeroDivisionError
      else reshape (proj_intor py self ''int1e_ovlp'')
             [nao (mol self), natm (mol self), nao (pmol self) div natm (mol self)])"

definition prepare_integrals :: "'b pyscf \<Rightarrow> 'b dscf \<Rightarrow> error + 'b dscf" where
  "prepare_integrals py self =
     (let self' = self\<lparr>pmol := gen_proj_mol py (mol self) (pbas self)\<rparr> in
      bind_res (proj_ovlp py self') (\<lambda>t_proj_ovlp.
      bind_res (split_last t_proj_ovlp (shell_sec self')) (\<lambda>shells.
      Inr (self'\<lparr>t_ovlp_shells := shells\<rparr>))))"

text \<open>
  \<open>NetMixin.reset\<close>: the \<open>reset\<close> of the base class takes the new molecule, if one is
  given, and the integrals are prepared again.
\<close>

definition reset :: "'b pyscf \<Rightarrow> 'b dscf \<Rightarrow> mole option \<Rightarrow> error + 'b dscf" where
  "reset py self mol_arg =
     prepare_integrals py (case mol_arg of None \<Rightarrow> self | Some m \<Rightarrow> self\<lparr>mol := m\<rparr>)"

text \<open>
  A \<open>Gradients\<close> object. Its \<open>base\<close> is a reference to the solver, which the functions
  below take as an argument; its molecule and the two lists of integrals are fields of
  its own, assigned in \<open>__init__\<close> and \<open>prepare_integrals\<close>.
\<close>

record gradients =
  g_mol :: mole
  g_t_ovlp_shells :: "tensor list"
  g_t_ipov_shells :: "tensor list"
  g_dec :: "tensor option"

definition grad_prepare_integrals ::
  "'b pyscf \<Rightarrow> 'b dscf \<Rightarrow> gradients \<Rightarrow> error + gradients" where
  "grad_prepare_integrals py mf g =
     bind_res (reshape_rest (proj_intor py mf ''int1e_ipovlp'')
                 [3, nao (g_mol g), natm (g_mol g)]) (\<lambda>t_proj_ipovlp.
     bind_res (split_last t_proj_ipovlp (shell_sec mf)) (\<lambda>ipov.
     Inr (g\<lparr>g_t_ovlp_shells := t_ovlp_shells mf, g_t_ipov_shells := ipov\<rparr>)))"

text \<open>\<open>Gradients.__init__\<close>; the base class takes the molecule of the solver.\<close>

definition new_gradients :: "'b pyscf \<Rightarrow> 'b dscf \<Rightarrow> error + gradients" where
  "new_gradients py mf =
     grad_prepare_integrals py mf
       \<lparr>g_mol = mol mf, g_t_ovlp_shells = [], g_t_ipov_shells = [], g_dec = None\<rparr>"

definition grad_corr ::
  "eigensolver \<Rightarrow> 'b dscf \<Rightarrow> gradients \<Rightarrow> tensor option \<Rightarrow> nat list option \<Rightarrow> error + tensor" where
  "grad_corr eigh mf g dm_arg atmlst_arg =
     (let atmlst = (case atmlst_arg of None \<Rightarrow> [0..<natm (g_mol g)] | Some l \<Rightarrow> l) in
      case net mf of
        None \<Rightarrow> Inr (zeros [length atmlst, 3])
      | Some mdl \<Rightarrow>
          let dm = (case dm_arg of None \<Rightarrow> make_rdm1 mf | Some d \<Rightarrow> d) in
          t_grad_corr eigh (g_mol g) mdl dm (g_t_ovlp_shells g) (g_t_ipov_shells g)
            (Some atmlst))"

text \<open>
  The call of the scanner (\<open>NewScanner.__call__\<close>). The scanner of the solver, which is
  pyscf's, resets the solver to the new molecule and runs the SCF iteration; then the
  scanner takes the molecule, prepares its integrals again and computes the gradient, of
  which the correction \<open>grad_corr\<close> is the part modelled.
\<close>

datatype mol_or_geom = AMole mole | Geom "(real \<times> real \<times> real) list"

definition mf_scanner :: "'b pyscf \<Rightarrow> 'b dscf \<Rightarrow> mole \<Rightarrow> error + 'b dscf" where
  "mf_scanner py mf m =
     bind_res (reset py mf (Some m)) (\<lambda>mf'. Inr (mf'\<lparr>make_rdm1 := kernel_rdm1 py mf'\<rparr>))"

definition scanner_call ::
  "'b pyscf \<Rightarrow> eigensolver \<Rightarrow> 'b dscf \<times> gradients \<Rightarrow> mol_or_geom
     \<Rightarrow> error + ('b dscf \<times> gradients) \<times> tensor" where
  "scanner_call py eigh mf_g arg =
     (case mf_g of (mf, g) \<Rightarrow>
        let m = (case arg of AMole m \<Rightarrow> m | Geom x \<Rightarrow> set_geom py (g_mol g) x) in
        bind_res (mf_scanner py mf m) (\<lambda>mf'.
        bind_res (grad_prepare_integrals py mf' (g\<lparr>g_mol := m\<rparr>)) (\<lambda>g'.
        bind_res (grad_corr eigh mf' g' None None) (\<lambda>dec.
        Inr ((mf', g'\<lparr>g_dec := Some dec\<rparr>), dec)))))"

section \<open>The contraction the specification asks for\<close>

text \<open>The element \<open>dm[b]\<close> of a batch of density matrices, at the leading indices \<open>b\<close>.\<close>

definition select :: "nat list \<Rightarrow> tensor \<Rightarrow> tensor" where
  "select b t = tensor_of (drop (length b) (shape t)) (\<lambda>ix. entry t (b @ ix))"

text \<open>
  The specification's projected density of one density matrix:
  \<open>(D\<^sup>I)\<^sub>p\<^sub>q = \<Sum>\<^sub>r\<^sub>s O\<^sub>r\<^sub>I\<^sub>p DM\<^sub>r\<^sub>s O\<^sub>s\<^sub>I\<^sub>q\<close>, the sums over the rows and columns of the
  matrix.
\<close>

definition projected_density :: "tensor \<Rightarrow> tensor \<Rightarrow> nat \<Rightarrow> nat \<Rightarrow> nat \<Rightarrow> real" where
  "projected_density po dm a p q =
     (\<Sum>r<shape dm ! 0. \<Sum>s<shape dm ! 1. entry po [r, a, p] * entry dm [r, s] * entry po [s, a, q])"

text \<open>
  The contributions to the coordinate derivative of the projected density the
  specification names, for the derivative overlap \<open>govx\<close> of one shell: the contraction of
  the derivative overlap, the density matrix and the overlap over the orbitals
  \<open>lo \<le> r < hi\<close> and all orbitals \<open>s\<close>.
\<close>

definition grad_overlap_term ::
  "tensor \<Rightarrow> tensor \<Rightarrow> tensor \<Rightarrow> nat \<Rightarrow> nat \<Rightarrow> nat \<Rightarrow> nat \<Rightarrow> nat \<Rightarrow> nat \<Rightarrow> real" where
  "grad_overlap_term govx dm ovlp lo hi x a p q =
     (\<Sum>r = lo..<hi. \<Sum>s<shape dm ! 1.
        entry govx [x, r, a, p] * entry dm [r, s] * entry ovlp [s, a, q])"

text \<open>
  Before the symmetrization, the entry for the moving atom \<open>ia\<close>, the direction \<open>x\<close>,
  the projection atom \<open>a\<close> and the local functions \<open>p\<close>, \<open>q\<close>: the contraction over
  all orbitals, only where the projection atom is the moving atom, minus the contraction
  over the orbitals of the moving atom (its slice, cut to the number of orbitals).
\<close>

definition pdm_x_unsym ::
  "mole \<Rightarrow> tensor \<Rightarrow> tensor \<Rightarrow> tensor \<Rightarrow> nat \<Rightarrow> nat \<Rightarrow> nat \<Rightarrow> nat \<Rightarrow> nat \<Rightarrow> real" where
  "pdm_x_unsym m govx dm ovlp ia x a p q =
     (if a = ia then grad_overlap_term govx dm ovlp 0 (shape dm ! 0) x a p q else 0)
     - (case aoslice m ia of (bg, ed) \<Rightarrow>
          grad_overlap_term govx dm ovlp (min bg (shape dm ! 0)) (min ed (shape dm ! 0)) x a p q)"

section \<open>Concrete inputs\<close>

text \<open>
  Two orbitals, one atom, one shell with one function; the overlaps of the two orbitals
  with that function are 1 and 2.
\<close>

definition po_ex :: tensor where
  "po_ex = tensor_of [2, 1, 1] (\<lambda>ix. if ix ! 0 = 0 then 1 else 2)"

text \<open>A batch of two density matrices: the unit matrix, and the matrix of threes.\<close>

definition dm_ex :: tensor where
  "dm_ex = tensor_of [2, 2, 2]
             (\<lambda>ix. if ix ! 0 = 0 then (if ix ! 1 = ix ! 2 then 1 else 0) else 3)"

text \<open>
  An eigensolver that is right on diagonal matrices, and so on every matrix with one row:
  the eigenvalues are the diagonal, the eigenvectors the unit vectors.
\<close>

definition eigh_diag :: eigensolver where
  "eigh_diag n m = ((\<lambda>k. m k k), (\<lambda>i k. if i = k then 1 else 0))"

text \<open>Two spin channels stacked into one array: \<open>np.stack([a, b])\<close>.\<close>

definition stack2 :: "tensor \<Rightarrow> tensor \<Rightarrow> tensor" where
  "stack2 a b = tensor_of (2 # shape a) (\<lambda>ix. if ix ! 0 = 0 then entry a (tl ix) else entry b (tl ix))"

definition mol_ex :: mole where
  "mol_ex = \<lparr>natm = 1, nao = 2, atom_coords = [(0, 0, 0)], aoslice = (\<lambda>ia. (0, 2))\<rparr>"

definition id2 :: tensor where
  "id2 = tensor_of [2, 2] (\<lambda>ix. if ix ! 0 = ix ! 1 then 1 else 0)"

text \<open>
  A base solver for the concrete inputs. Its potential is built incrementally, as a direct
  SCF does: the previous potential plus the potential of the change of the density
  matrix, here the change itself. \<open>id2\<close> is the unit matrix.
\<close>

definition as_entry :: "array_like \<Rightarrow> nat list \<Rightarrow> real" where
  "as_entry a ix = (case a of Number x \<Rightarrow> x | Array t \<Rightarrow> entry t ix)"

definition base_veff_ex :: "mole \<Rightarrow> tensor \<Rightarrow> array_like \<Rightarrow> array_like \<Rightarrow> int \<Rightarrow> error + tensor" where
  "base_veff_ex m dm dm_last vhf_last hermi =
     Inr (tensor_of (shape dm) (\<lambda>ix. as_entry vhf_last ix + (entry dm ix - as_entry dm_last ix)))"

definition base_energy_ex :: "tensor \<Rightarrow> tensor \<Rightarrow> tensor \<Rightarrow> error + tensor \<times> tensor" where
  "base_energy_ex dm h1e vhf =
     Inr (scalar (\<Sum>r<2. \<Sum>s<2. entry dm [r, s] * (entry h1e [r, s] + entry vhf [r, s] / 2)),
          scalar (\<Sum>r<2. \<Sum>s<2. entry dm [r, s] * entry vhf [r, s] / 2))"

definition solver_ex :: "model option \<Rightarrow> bool \<Rightarrow> unit dscf" where
  "solver_ex mdl uhf =
     \<lparr>mol = mol_ex, net = mdl, is_uhf = uhf, pbas = (), shell_sec = [1], pmol = mol_ex,
      t_ovlp_shells = [po_ex], make_rdm1 = id2, get_hcore = zeros [2, 2],
      base_get_veff = base_veff_ex, base_energy_elec = base_energy_ex\<rparr>"

definition grad_ex :: gradients where
  "grad_ex = \<lparr>g_mol = mol_ex, g_t_ovlp_shells = [po_ex], g_t_ipov_shells = [zeros [3, 2, 1, 1]],
              g_dec = None\<rparr>"

text \<open>
  The trivial model of the specification: the sum of all descriptor entries times a
  constant, as a module with parameters; its gradient is the constant everywhere.
\<close>

fun all_indices :: "nat list \<Rightarrow> nat list list" where
  "all_indices [] = [[]]"
| "all_indices (n # sh) = concat (map (\<lambda>i. map ((#) i) (all_indices sh)) [0..<n])"

definition sum_all :: "tensor \<Rightarrow> real" where
  "sum_all t = (\<Sum>ix\<leftarrow>all_indices (shape t). entry t ix)"

definition model_lin :: "real \<Rightarrow> model" where
  "model_lin c = \<lparr>kind = Module True,
                  forward = (\<lambda>x. Inr (tensor_of [1] (\<lambda>ix. c * sum_all x))),
                  grad_input = (\<lambda>x g. tensor_of (shape x) (\<lambda>ix. c * entry g [0]))\<rparr>"

text \<open>The unit matrix at half occupation.\<close>

definition half_ex :: tensor where
  "half_ex = tensor_of [2, 2] (\<lambda>ix. if ix ! 0 = ix ! 1 then 1 / 2 else 0)"


text \<open>
  A module whose energy is the sum of all descriptor entries times the number of axes of
  its input (\<open>x.dim() * x.sum()\<close>), and the trivial model as a plain function, which
  is no module.
\<close>

definition model_rank :: model where
  "model_rank = \<lparr>kind = Module True,
                  forward = (\<lambda>x. Inr (tensor_of [1] (\<lambda>ix. real (ndim x) * sum_all x))),
                  grad_input = (\<lambda>x g. tensor_of (shape x) (\<lambda>ix. real (ndim x) * entry g [0]))\<rparr>"

definition model_callable :: "real \<Rightarrow> model" where
  "model_callable c = (model_lin c)\<lparr>kind := Callable\<rparr>"

text \<open>
  Two atoms with one orbital each, a shell of two functions, and a derivative overlap.
\<close>

definition mol2_ex :: mole where
  "mol2_ex = \<lparr>natm = 2, nao = 2, atom_coords = [(0, 0, 0), (0, 0, 1)],
              aoslice = (\<lambda>ia. (ia, Suc ia))\<rparr>"

definition po2_ex :: tensor where
  "po2_ex = tensor_of [2, 2, 2] (\<lambda>ix. real (ix ! 0) + 1 + 2 * real (ix ! 1) + 4 * real (ix ! 2))"

definition govx2_ex :: tensor where
  "govx2_ex = tensor_of [3, 2, 2, 2]
                (\<lambda>ix. (real (ix ! 0) + 1) * (real (ix ! 1) + 1) * (real (ix ! 3) + 1))"

section \<open>Properties\<close>

lemma bind_res_simps [simp]:
  "bind_res (Inr x) f = f x"
  "bind_res (Inl e) f = Inl e"
  by (simp_all add: bind_res_def)

lemma entry_tensor_of [simp]:
  "entry (tensor_of sh f) ix = (if inside ix sh then f ix else 0)"
  by (simp add: tensor_of_def)

lemma shape_tensor_of [simp]: "shape (tensor_of sh f) = sh"
  by (simp add: tensor_of_def)

lemma tensor_of_cong:
  "(\<And>ix. inside ix sh \<Longrightarrow> f ix = g ix) \<Longrightarrow> tensor_of sh f = tensor_of sh g"
  by (auto simp: tensor_of_def)

lemma collect_all_ok:
  "(\<And>x. x \<in> set xs \<Longrightarrow> f x = Inr (g x)) \<Longrightarrow> collect f xs = Inr (map g xs)"
  by (induction xs) auto

lemma inside_Nil [simp]: "inside [] sh = (sh = [])" "inside ix [] = (ix = [])"
  by (auto simp: inside_def)

lemma inside_Cons [simp]: "inside (i # ix) (n # sh) = (i < n \<and> inside ix sh)"
  by (simp add: inside_def)

lemma inside_length: "inside ix sh \<Longrightarrow> length ix = length sh"
  by (simp add: inside_def list_all2_lengthD)

lemma inside_append [simp]:
  "length b = length batch \<Longrightarrow> inside (b @ ix) (batch @ sh) = (inside b batch \<and> inside ix sh)"
  by (simp add: inside_def list_all2_append)

lemma nth_append3:
  "length b = n \<Longrightarrow> (b @ [a, p, q]) ! n = a"
  "length b = n \<Longrightarrow> (b @ [a, p, q]) ! Suc n = p"
  "length b = n \<Longrightarrow> (b @ [a, p, q]) ! Suc (Suc n) = q"
  by (auto simp: nth_append)

subsection \<open>The projection\<close>

lemma einsum_rap_rs_saq_ok:
  assumes "length (shape po) = 3" "shape po ! 0 = n_ao" "shape dm = batch @ [n_ao, n_ao]"
  shows "einsum_rap_rs_saq po dm po =
           Inr (tensor_of (batch @ [shape po ! 1, shape po ! 2, shape po ! 2])
                  (\<lambda>ix. \<Sum>r<n_ao. \<Sum>s<n_ao.
                           entry po [r, ix ! (length ix - 3), ix ! (length ix - 2)]
                         * entry dm (take (length ix - 3) ix @ [r, s])
                         * entry po [s, ix ! (length ix - 3), ix ! (length ix - 1)]))"
  using assms by (simp add: einsum_rap_rs_saq_def)

lemma pdm_entry:
  assumes po: "length (shape po) = 3" "shape po ! 0 = n_ao" "shape po ! 1 = n_atm"
    and dm: "shape dm = batch @ [n_ao, n_ao]"
    and run: "einsum_rap_rs_saq po dm po = Inr pdm"
    and ins: "inside (b @ [a, p, q]) (shape pdm)"
  shows "entry pdm (b @ [a, p, q]) = projected_density po (select b dm) a p q"
proof -
  have pdm: "pdm = tensor_of (batch @ [n_atm, shape po ! 2, shape po ! 2])
                  (\<lambda>ix. \<Sum>r<n_ao. \<Sum>s<n_ao.
                           entry po [r, ix ! (length ix - 3), ix ! (length ix - 2)]
                         * entry dm (take (length ix - 3) ix @ [r, s])
                         * entry po [s, ix ! (length ix - 3), ix ! (length ix - 1)])"
    using run po dm by (simp add: einsum_rap_rs_saq_ok)
  from ins have lb: "length b = length batch"
    by (auto dest: inside_length simp: pdm)
  with ins have bb: "inside b batch"
    by (simp add: pdm)
  show ?thesis
    using ins lb bb
    by (simp add: pdm projected_density_def select_def dm nth_append3 nth_append)
qed

text \<open>
  Claim C2. For overlap shells of shape \<open>[n_ao, n_atm, nsph]\<close> and a density matrix of shape
  \<open>[n_ao, n_ao]\<close> behind any batch axes, \<open>t_make_pdm\<close> raises nothing and returns one
  tensor per shell, of shape batch, \<open>n_atm\<close>, \<open>nsph\<close>, \<open>nsph\<close>; its entry at the batch
  index \<open>b\<close>, atom \<open>a\<close> and local functions \<open>p\<close>, \<open>q\<close> is the specification's
  contraction \<open>\<Sum>\<^sub>r\<^sub>s O\<^sub>r\<^sub>a\<^sub>p DM\<^sub>r\<^sub>s O\<^sub>s\<^sub>a\<^sub>q\<close> of the batch element \<open>dm[b]\<close> alone.
\<close>

theorem t_make_pdm_contraction:
  assumes os: "\<forall>po \<in> set ovlp_shells.
                 length (shape po) = 3 \<and> shape po ! 0 = n_ao \<and> shape po ! 1 = n_atm"
    and dm: "shape dm = batch @ [n_ao, n_ao]"
  shows "\<exists>pdm_shells. t_make_pdm dm ovlp_shells = Inr pdm_shells
           \<and> length pdm_shells = length ovlp_shells
           \<and> (\<forall>k<length ovlp_shells.
                 shape (pdm_shells ! k)
                   = batch @ [n_atm, shape (ovlp_shells ! k) ! 2, shape (ovlp_shells ! k) ! 2]
               \<and> (\<forall>b a p q. inside (b @ [a, p, q]) (shape (pdm_shells ! k)) \<longrightarrow>
                     entry (pdm_shells ! k) (b @ [a, p, q])
                       = projected_density (ovlp_shells ! k) (select b dm) a p q))"
proof -
  let ?g = "\<lambda>po. tensor_of (batch @ [shape po ! 1, shape po ! 2, shape po ! 2])
                  (\<lambda>ix. \<Sum>r<n_ao. \<Sum>s<n_ao.
                           entry po [r, ix ! (length ix - 3), ix ! (length ix - 2)]
                         * entry dm (take (length ix - 3) ix @ [r, s])
                         * entry po [s, ix ! (length ix - 3), ix ! (length ix - 1)])"
  have each: "einsum_rap_rs_saq po dm po = Inr (?g po)" if "po \<in> set ovlp_shells" for po
    using that os dm by (simp add: einsum_rap_rs_saq_ok)
  have run: "t_make_pdm dm ovlp_shells = Inr (map ?g ovlp_shells)"
    unfolding t_make_pdm_def by (rule collect_all_ok) (rule each)
  have "shape (map ?g ovlp_shells ! k)
            = batch @ [n_atm, shape (ovlp_shells ! k) ! 2, shape (ovlp_shells ! k) ! 2]
        \<and> (\<forall>b a p q. inside (b @ [a, p, q]) (shape (map ?g ovlp_shells ! k)) \<longrightarrow>
              entry (map ?g ovlp_shells ! k) (b @ [a, p, q])
                = projected_density (ovlp_shells ! k) (select b dm) a p q)"
    if k: "k < length ovlp_shells" for k
  proof -
    from k have mem: "ovlp_shells ! k \<in> set ovlp_shells" by simp
    with os have po: "length (shape (ovlp_shells ! k)) = 3" "shape (ovlp_shells ! k) ! 0 = n_ao"
      "shape (ovlp_shells ! k) ! 1 = n_atm" by auto
    have gk: "map ?g ovlp_shells ! k = ?g (ovlp_shells ! k)" using k by simp
    show ?thesis
      unfolding gk using pdm_entry [OF po dm each [OF mem]] po by simp
  qed
  with run show ?thesis by auto
qed

text \<open>
  The theorem at the batch of two matrices above: the projected densities are
  \<open>1 + 4 = 5\<close> for the unit matrix and \<open>3 (1 + 2)\<^sup>2 = 27\<close> for the matrix of threes.
\<close>

theorem t_make_pdm_contraction_witness:
  "\<exists>pdm_shells. t_make_pdm dm_ex [po_ex] = Inr pdm_shells
      \<and> length pdm_shells = 1
      \<and> shape (pdm_shells ! 0) = [2, 1, 1, 1]
      \<and> entry (pdm_shells ! 0) [0, 0, 0, 0] = 5
      \<and> entry (pdm_shells ! 0) [1, 0, 0, 0] = 27"
proof -
  have sh: "\<forall>po \<in> set [po_ex]. length (shape po) = 3 \<and> shape po ! 0 = 2 \<and> shape po ! 1 = 1"
    by (simp add: po_ex_def)
  have dm: "shape dm_ex = [2] @ [2, 2]"
    by (simp add: dm_ex_def)
  from t_make_pdm_contraction [OF sh dm]
  obtain ps where run: "t_make_pdm dm_ex [po_ex] = Inr ps" and len: "length ps = length [po_ex]"
    and each: "\<forall>k<length [po_ex].
                 shape (ps ! k) = [2] @ [1, shape ([po_ex] ! k) ! 2, shape ([po_ex] ! k) ! 2]
               \<and> (\<forall>b a p q. inside (b @ [a, p, q]) (shape (ps ! k)) \<longrightarrow>
                     entry (ps ! k) (b @ [a, p, q])
                       = projected_density ([po_ex] ! k) (select b dm_ex) a p q)"
    by blast
  from each have shp: "shape (ps ! 0) = [2, 1, 1, 1]"
    by (simp add: po_ex_def)
  from each have ent: "inside (b @ [a, p, q]) (shape (ps ! 0)) \<longrightarrow>
      entry (ps ! 0) (b @ [a, p, q]) = projected_density po_ex (select b dm_ex) a p q" for b a p q
    by simp
  have e0: "entry (ps ! 0) [0, 0, 0, 0] = 5"
    using ent [of "[0]" 0 0 0]
    by (simp add: shp projected_density_def select_def po_ex_def dm_ex_def
        lessThan_Suc numeral_2_eq_2)
  have e1: "entry (ps ! 0) [1, 0, 0, 0] = 27"
    using ent [of "[1]" 0 0 0]
    by (simp add: shp projected_density_def select_def po_ex_def dm_ex_def
        lessThan_Suc numeral_2_eq_2)
  from run len shp e0 e1 show ?thesis by simp
qed

subsection \<open>The descriptor\<close>

lemma collect_Inr_iff: "collect f xs = Inr ys \<longleftrightarrow> list_all2 (\<lambda>x y. f x = Inr y) xs ys"
proof (induction xs arbitrary: ys)
  case Nil
  then show ?case by auto
next
  case (Cons x xs)
  show ?case
  proof (cases "f x")
    case (Inl e)
    then show ?thesis by (auto simp: list_all2_Cons1)
  next
    case (Inr y)
    then show ?thesis
      using Cons.IH by (cases "collect f xs") (auto simp: list_all2_Cons1)
  qed
qed

lemma collect_total:
  assumes "\<And>x. x \<in> set xs \<Longrightarrow> \<exists>y. f x = Inr y"
  shows "\<exists>ys. collect f xs = Inr ys"
  using assms by (induction xs) (auto, metis bind_res_simps(1))

lemma t_make_pdm_shapes:
  assumes os: "\<forall>po \<in> set ovlp_shells.
                 length (shape po) = 3 \<and> shape po ! 0 = n_ao \<and> shape po ! 1 = n_atm"
    and dm: "shape dm = batch @ [n_ao, n_ao]"
  shows "\<exists>pdm_shells. t_make_pdm dm ovlp_shells = Inr pdm_shells
           \<and> length pdm_shells = length ovlp_shells
           \<and> (\<forall>k<length ovlp_shells.
                 shape (pdm_shells ! k)
                   = batch @ [n_atm, shape (ovlp_shells ! k) ! 2, shape (ovlp_shells ! k) ! 2])"
proof -
  let ?g = "\<lambda>po. tensor_of (batch @ [shape po ! 1, shape po ! 2, shape po ! 2])
                  (\<lambda>ix. \<Sum>r<n_ao. \<Sum>s<n_ao.
                           entry po [r, ix ! (length ix - 3), ix ! (length ix - 2)]
                         * entry dm (take (length ix - 3) ix @ [r, s])
                         * entry po [s, ix ! (length ix - 3), ix ! (length ix - 1)])"
  have each: "einsum_rap_rs_saq po dm po = Inr (?g po)" if "po \<in> set ovlp_shells" for po
    using that os dm by (simp add: einsum_rap_rs_saq_ok)
  have run: "t_make_pdm dm ovlp_shells = Inr (map ?g ovlp_shells)"
    unfolding t_make_pdm_def by (rule collect_all_ok) (rule each)
  have "shape (map ?g ovlp_shells ! k)
          = batch @ [n_atm, shape (ovlp_shells ! k) ! 2, shape (ovlp_shells ! k) ! 2]"
    if k: "k < length ovlp_shells" for k
    using k os by simp
  with run show ?thesis by simp
qed

lemma t_shell_eig_shape:
  assumes "shape pdm = b @ [n, n]"
  shows "\<exists>e. t_shell_eig eigh pdm = Inr e \<and> shape e = b @ [n]"
  using assms by (simp add: t_shell_eig_def butlast_append)

lemma cat_last_shape:
  assumes ne: "ts \<noteq> []" and sh: "\<forall>t \<in> set ts. \<exists>n. shape t = b @ [n]"
  shows "\<exists>c. cat_last ts = Inr c \<and> shape c = b @ [sum_list (map (\<lambda>u. last (shape u)) ts)]"
proof -
  from ne obtain t ts' where ts: "ts = t # ts'" by (cases ts) auto
  have "\<forall>u \<in> set ts. shape u \<noteq> [] \<and> butlast (shape u) = b"
    using sh by (auto simp: butlast_append)
  then show ?thesis
    unfolding cat_last_def ts by (auto simp: butlast_append)
qed

lemma t_make_eig_shape:
  assumes ne: "ovlp_shells \<noteq> []"
    and os: "\<forall>po \<in> set ovlp_shells.
                 length (shape po) = 3 \<and> shape po ! 0 = n_ao \<and> shape po ! 1 = n_atm"
    and dm: "shape dm = batch @ [n_ao, n_ao]"
  shows "\<exists>ceig. t_make_eig eigh dm ovlp_shells = Inr ceig
            \<and> shape ceig = batch @ [n_atm, sum_list (map (\<lambda>po. shape po ! 2) ovlp_shells)]"
proof -
  from t_make_pdm_shapes [OF os dm] obtain ps where
    run: "t_make_pdm dm ovlp_shells = Inr ps" and len: "length ps = length ovlp_shells"
    and shp: "\<forall>k<length ovlp_shells. shape (ps ! k)
                = batch @ [n_atm, shape (ovlp_shells ! k) ! 2, shape (ovlp_shells ! k) ! 2]"
    by blast
  have "\<exists>e. t_shell_eig eigh pdm = Inr e" if "pdm \<in> set ps" for pdm
  proof -
    from that obtain k where "k < length ps" "pdm = ps ! k" by (auto simp: in_set_conv_nth)
    with shp len have "shape pdm = (batch @ [n_atm]) @ [shape (ovlp_shells ! k) ! 2, shape (ovlp_shells ! k) ! 2]"
      by simp
    from t_shell_eig_shape [OF this] show ?thesis by blast
  qed
  then obtain es where es: "collect (t_shell_eig eigh) ps = Inr es"
    using collect_total by blast
  then have rel: "list_all2 (\<lambda>pdm e. t_shell_eig eigh pdm = Inr e) ps es"
    by (simp add: collect_Inr_iff)
  then have les: "length es = length ps" by (simp add: list_all2_lengthD)
  have she: "shape (es ! k) = (batch @ [n_atm]) @ [shape (ovlp_shells ! k) ! 2]" if k: "k < length ovlp_shells" for k
  proof -
    from shp k have "shape (ps ! k) = (batch @ [n_atm]) @ [shape (ovlp_shells ! k) ! 2, shape (ovlp_shells ! k) ! 2]"
      by simp
    from t_shell_eig_shape [OF this, of eigh] obtain e where
      e: "t_shell_eig eigh (ps ! k) = Inr e" "shape e = (batch @ [n_atm]) @ [shape (ovlp_shells ! k) ! 2]"
      by blast
    from k len have "k < length ps" by simp
    from list_all2_nthD [OF rel this] have "t_shell_eig eigh (ps ! k) = Inr (es ! k)" .
    with e(1) have "es ! k = e" by simp
    then show ?thesis using e(2) by simp
  qed
  have all: "\<forall>t \<in> set es. \<exists>n. shape t = (batch @ [n_atm]) @ [n]"
    using she les len by (auto simp: in_set_conv_nth)
  have nee: "es \<noteq> []" using ne les len by auto
  from cat_last_shape [OF nee all] obtain c where
    c: "cat_last es = Inr c" "shape c = (batch @ [n_atm]) @ [sum_list (map (\<lambda>u. last (shape u)) es)]"
    by blast
  have "map (\<lambda>u. last (shape u)) es = map (\<lambda>po. shape po ! 2) ovlp_shells"
    using she les len by (auto intro!: nth_equalityI)
  with c run es show ?thesis
    by (simp add: t_make_eig_def)
qed

text \<open>
  Claim C9, as the code has it. With no shell at all the list of eigenvalue tensors is
  empty and \<open>torch.cat\<close> refuses it, so \<open>t_make_eig\<close> raises. With at least one shell and
  no atom (overlap shells of shape \<open>[n_ao, 0, nsph]\<close>) it raises nothing and returns a
  descriptor of shape batch, 0, total shell size, which has no element.
\<close>

theorem t_make_eig_empty:
  "t_make_eig eigh dm [] = Inl RuntimeError
   \<and> (ovlp_shells \<noteq> []
        \<and> (\<forall>po \<in> set ovlp_shells. length (shape po) = 3 \<and> shape po ! 0 = n_ao \<and> shape po ! 1 = 0)
        \<and> shape dm = batch @ [n_ao, n_ao]
      \<longrightarrow> (\<exists>ceig. t_make_eig eigh dm ovlp_shells = Inr ceig
              \<and> shape ceig = batch @ [0, sum_list (map (\<lambda>po. shape po ! 2) ovlp_shells)]
              \<and> numel ceig = 0))"
proof (intro conjI impI)
  show "t_make_eig eigh dm [] = Inl RuntimeError"
    by (simp add: t_make_eig_def t_make_pdm_def cat_last_def)
next
  assume a: "ovlp_shells \<noteq> []
        \<and> (\<forall>po \<in> set ovlp_shells. length (shape po) = 3 \<and> shape po ! 0 = n_ao \<and> shape po ! 1 = 0)
        \<and> shape dm = batch @ [n_ao, n_ao]"
  then have ne: "ovlp_shells \<noteq> []"
    and os: "\<forall>po \<in> set ovlp_shells. length (shape po) = 3 \<and> shape po ! 0 = n_ao \<and> shape po ! 1 = 0"
    and dm: "shape dm = batch @ [n_ao, n_ao]"
    by simp_all
  from t_make_eig_shape [OF ne os dm, of eigh] obtain ceig where
    "t_make_eig eigh dm ovlp_shells = Inr ceig"
    "shape ceig = batch @ [0, sum_list (map (\<lambda>po. shape po ! 2) ovlp_shells)]"
    by blast
  then show "\<exists>ceig. t_make_eig eigh dm ovlp_shells = Inr ceig
              \<and> shape ceig = batch @ [0, sum_list (map (\<lambda>po. shape po ! 2) ovlp_shells)]
              \<and> numel ceig = 0"
    by (simp add: numel_def)
qed

text \<open>The theorem at one shell of one function, no atom and no orbital.\<close>

theorem t_make_eig_empty_witness:
  "\<exists>ceig. t_make_eig eigh_diag (zeros [0, 0]) [zeros [0, 0, 1]] = Inr ceig
      \<and> shape ceig = [0, 1] \<and> numel ceig = 0"
  using t_make_eig_empty [of eigh_diag "zeros [0, 0]" "[zeros [0, 0, 1]]" 0 "[]"]
  by (simp add: zeros_def)

text \<open>
  The claim as stated fails for an empty projection basis: with no shell the descriptor
  computation raises.
\<close>

theorem t_make_eig_empty_basis_counterexample:
  "\<not> (\<exists>ceig. t_make_eig eigh_diag (zeros [0, 0]) [] = Inr ceig)"
  by (simp add: t_make_eig_def t_make_pdm_def cat_last_def)

subsection \<open>No model\<close>

lemma entry_zeros [simp]: "entry (zeros sh) ix = 0"
  by (simp add: zeros_def)

lemma shape_zeros [simp]: "shape (zeros sh) = sh"
  by (simp add: zeros_def)

text \<open>
  Claim C7. When the solver has no model (\<open>net\<close> is \<open>None\<close>), for every density matrix
  argument \<open>get_corr\<close> raises nothing and returns the energy 0 and a potential of the shape
  of the density matrix whose entries are all 0, and for every atom list \<open>grad_corr\<close>
  raises nothing and returns an array of shape number of selected atoms by 3 whose entries
  are all 0.
\<close>

theorem no_model_zero_correction:
  assumes "net self = None"
  shows "(\<exists>ec vc. get_corr eigh self dm_arg = Inr (ec, vc)
            \<and> shape ec = [] \<and> entry ec [] = 0
            \<and> shape vc = shape (case dm_arg of None \<Rightarrow> make_rdm1 self | Some d \<Rightarrow> d)
            \<and> (\<forall>ix. entry vc ix = 0))
       \<and> (\<exists>dec. grad_corr eigh self g dm_arg' atmlst_arg = Inr dec
            \<and> shape dec = [length (case atmlst_arg of None \<Rightarrow> [0..<natm (g_mol g)] | Some l \<Rightarrow> l), 3]
            \<and> (\<forall>ix. entry dec ix = 0))"
  using assms by (simp add: get_corr_def grad_corr_def zeros_like_def scalar_def Let_def)

text \<open>The theorem at an unrestricted solver without a model and the batch of two matrices.\<close>

theorem no_model_zero_correction_witness:
  "(\<exists>ec vc. get_corr eigh_diag (solver_ex None True) (Some dm_ex) = Inr (ec, vc)
            \<and> shape ec = [] \<and> entry ec [] = 0 \<and> shape vc = [2, 2, 2] \<and> entry vc [1, 0, 1] = 0)
   \<and> (\<exists>dec. grad_corr eigh_diag (solver_ex None True) grad_ex None None = Inr dec
            \<and> shape dec = [1, 3] \<and> entry dec [0, 2] = 0)"
  using no_model_zero_correction [of "solver_ex None True" eigh_diag "Some dm_ex" grad_ex None None]
  by (auto simp add: solver_ex_def dm_ex_def grad_ex_def mol_ex_def)

subsection \<open>Spin channels\<close>

lemma sum0_stack2: "sum0 (stack2 h h) = Inr (scale 2 h)"
  by (auto simp: sum0_def stack2_def scale_def lessThan_Suc numeral_2_eq_2 intro!: tensor_of_cong)

lemma sum0_entries:
  assumes "shape dm = n # sh"
  shows "\<exists>d. sum0 dm = Inr d \<and> shape d = sh
           \<and> (\<forall>ix. inside ix sh \<longrightarrow> entry d ix = (\<Sum>c<n. entry dm (c # ix)))"
  using assms by (simp add: sum0_def)

text \<open>
  Claim C6. For an unrestricted solver and a density matrix \<open>dm\<close> with a leading spin
  axis, the descriptor (\<open>make_eig\<close>) is \<open>t_make_eig\<close> of the sum of the channels of
  \<open>dm\<close> with the cached overlaps, and the correction (\<open>get_corr\<close>) is \<open>t_get_corr\<close> of
  that sum; every entry of the sum is the sum of the entries of the channels. In
  particular, for two identical channels \<open>h\<close> the descriptor and the correction are
  \<open>t_make_eig\<close> and \<open>t_get_corr\<close> of the matrix \<open>2 h\<close>, and they are what a restricted
  solver with the same overlaps and model returns for \<open>2 h\<close>.
\<close>

theorem spin_summed_descriptor:
  assumes u: "is_uhf su" and r: "\<not> is_uhf sr"
    and ov: "t_ovlp_shells su = t_ovlp_shells sr" and nt: "net su = Some m" "net sr = Some m"
  shows "(3 \<le> ndim dm \<longrightarrow>
            make_eig eigh su (Some dm)
              = bind_res (sum0 dm) (\<lambda>d. t_make_eig eigh d (t_ovlp_shells su))
          \<and> get_corr eigh su (Some dm)
              = bind_res (sum0 dm) (\<lambda>d.
                bind_res (t_get_corr eigh m d (t_ovlp_shells su) True) (\<lambda>(t_ec, t_vc).
                case t_vc of None \<Rightarrow> Inl ValueError
                | Some vc \<Rightarrow> Inr (item_or_array t_ec, vc)))
          \<and> (\<forall>n sh. shape dm = n # sh \<longrightarrow>
                (\<exists>d. sum0 dm = Inr d \<and> shape d = sh
                   \<and> (\<forall>ix. inside ix sh \<longrightarrow> entry d ix = (\<Sum>c<n. entry dm (c # ix))))))
       \<and> (2 \<le> ndim h \<longrightarrow>
            make_eig eigh su (Some (stack2 h h)) = t_make_eig eigh (scale 2 h) (t_ovlp_shells su)
          \<and> make_eig eigh sr (Some (scale 2 h)) = t_make_eig eigh (scale 2 h) (t_ovlp_shells su)
          \<and> get_corr eigh su (Some (stack2 h h))
              = bind_res (t_get_corr eigh m (scale 2 h) (t_ovlp_shells su) True) (\<lambda>(t_ec, t_vc).
                case t_vc of None \<Rightarrow> Inl ValueError
                | Some vc \<Rightarrow> Inr (item_or_array t_ec, vc))
          \<and> get_corr eigh sr (Some (scale 2 h)) = get_corr eigh su (Some (stack2 h h))
          \<and> shape (scale 2 h) = shape h
          \<and> (\<forall>ix. inside ix (shape h) \<longrightarrow> entry (scale 2 h) ix = 2 * entry h ix))"
proof (intro conjI impI)
  assume d: "3 \<le> ndim dm"
  show "make_eig eigh su (Some dm)
              = bind_res (sum0 dm) (\<lambda>d. t_make_eig eigh d (t_ovlp_shells su))"
    using u d by (simp add: make_eig_def spin_sum_def)
  show "get_corr eigh su (Some dm)
              = bind_res (sum0 dm) (\<lambda>d.
                bind_res (t_get_corr eigh m d (t_ovlp_shells su) True) (\<lambda>(t_ec, t_vc).
                case t_vc of None \<Rightarrow> Inl ValueError
                | Some vc \<Rightarrow> Inr (item_or_array t_ec, vc)))"
    using u nt d by (simp add: get_corr_def spin_sum_def)
  show "\<forall>n sh. shape dm = n # sh \<longrightarrow>
                (\<exists>d. sum0 dm = Inr d \<and> shape d = sh
                   \<and> (\<forall>ix. inside ix sh \<longrightarrow> entry d ix = (\<Sum>c<n. entry dm (c # ix))))"
    using sum0_entries by blast
next
  assume h: "2 \<le> ndim h"
  then have n3: "3 \<le> ndim (stack2 h h)" by (simp add: ndim_def stack2_def)
  show "make_eig eigh su (Some (stack2 h h)) = t_make_eig eigh (scale 2 h) (t_ovlp_shells su)"
    using u n3 by (simp add: make_eig_def spin_sum_def sum0_stack2)
  show "make_eig eigh sr (Some (scale 2 h)) = t_make_eig eigh (scale 2 h) (t_ovlp_shells su)"
    using r ov by (simp add: make_eig_def spin_sum_def)
  show su: "get_corr eigh su (Some (stack2 h h))
              = bind_res (t_get_corr eigh m (scale 2 h) (t_ovlp_shells su) True) (\<lambda>(t_ec, t_vc).
                case t_vc of None \<Rightarrow> Inl ValueError
                | Some vc \<Rightarrow> Inr (item_or_array t_ec, vc))"
    using u nt n3 by (simp add: get_corr_def spin_sum_def sum0_stack2)
  show "get_corr eigh sr (Some (scale 2 h)) = get_corr eigh su (Some (stack2 h h))"
    unfolding su using r ov nt by (simp add: get_corr_def spin_sum_def)
  show "shape (scale 2 h) = shape h" by (simp add: scale_def)
  show "\<forall>ix. inside ix (shape h) \<longrightarrow> entry (scale 2 h) ix = 2 * entry h ix"
    by (simp add: scale_def)
qed

lemma t_make_eig_unit:
  "\<exists>t. t_make_eig eigh_diag (scale 2 half_ex) [po_ex] = Inr t
      \<and> shape t = [1, 1] \<and> entry t [0, 0] = 5"
  by (simp add: scale_def half_ex_def
        t_make_eig_def t_make_pdm_def einsum_rap_rs_saq_def po_ex_def
        t_shell_eig_def cat_last_def eigh_diag_def matrix_at_def lessThan_Suc numeral_2_eq_2)

lemma t_get_corr_unit:
  "\<exists>ec vc. bind_res (t_get_corr eigh_diag (model_lin 3) (scale 2 half_ex) [po_ex] True)
              (\<lambda>(t_ec, t_vc). case t_vc of None \<Rightarrow> Inl ValueError
                               | Some vc \<Rightarrow> Inr (item_or_array t_ec, vc)) = Inr (ec, vc)
      \<and> shape ec = [] \<and> entry ec [] = 15 \<and> shape vc = [2, 2]
      \<and> entry vc [0, 0] = 3 \<and> entry vc [0, 1] = 6 \<and> entry vc [1, 1] = 12"
  by (simp add: scale_def half_ex_def numel_def ndim_def item_or_array_def scalar_def
      t_get_corr_def t_make_eig_def t_make_pdm_def einsum_rap_rs_saq_def po_ex_def
      t_shell_eig_def cat_last_def eigh_diag_def matrix_at_def lessThan_Suc numeral_2_eq_2
      dref_of_def model_lin_def sum_all_def autograd_grad_dm_def grad_e_pdm_def eig_backward_def
      symeig_backward_def einsum_rap_rs_saq_backward_def accumulate_def ones_like_def Let_def)

text \<open>
  The theorem at two channels that are half the unit matrix, with the model
  \<open>3 \<Sum> descriptor\<close>: the descriptor is that of the unit matrix, whose only entry is
  \<open>1 + 4 = 5\<close>; the energy is 15 and the potential is 3 times the products of the
  overlaps, for the unrestricted solver and for the restricted solver at the unit matrix.
\<close>

theorem spin_summed_descriptor_witness:
  "(\<exists>t. make_eig eigh_diag (solver_ex (Some (model_lin 3)) True)
           (Some (stack2 half_ex half_ex)) = Inr t
        \<and> make_eig eigh_diag (solver_ex (Some (model_lin 3)) False)
           (Some (scale 2 half_ex)) = Inr t
        \<and> shape t = [1, 1] \<and> entry t [0, 0] = 5)
   \<and> (\<exists>ec vc. get_corr eigh_diag (solver_ex (Some (model_lin 3)) True)
           (Some (stack2 half_ex half_ex)) = Inr (ec, vc)
        \<and> get_corr eigh_diag (solver_ex (Some (model_lin 3)) False)
           (Some (scale 2 half_ex)) = Inr (ec, vc)
        \<and> entry ec [] = 15 \<and> shape vc = [2, 2]
        \<and> entry vc [0, 0] = 3 \<and> entry vc [0, 1] = 6 \<and> entry vc [1, 1] = 12)"
proof -
  have a: "is_uhf (solver_ex (Some (model_lin 3)) True)"
    and b: "\<not> is_uhf (solver_ex (Some (model_lin 3)) False)"
    and c: "t_ovlp_shells (solver_ex (Some (model_lin 3)) True)
             = t_ovlp_shells (solver_ex (Some (model_lin 3)) False)"
    and d: "net (solver_ex (Some (model_lin 3)) True) = Some (model_lin 3)"
           "net (solver_ex (Some (model_lin 3)) False) = Some (model_lin 3)"
    by (simp_all add: solver_ex_def)
  have ov: "t_ovlp_shells (solver_ex (Some (model_lin 3)) True) = [po_ex]"
    by (simp add: solver_ex_def)
  have h: "2 \<le> ndim half_ex" by (simp add: ndim_def half_ex_def)
  note T = spin_summed_descriptor [OF a b c d, of dm_ex eigh_diag half_ex, unfolded ov]
  from T h t_make_eig_unit have 1: "\<exists>t. make_eig eigh_diag (solver_ex (Some (model_lin 3)) True)
           (Some (stack2 half_ex half_ex)) = Inr t
        \<and> make_eig eigh_diag (solver_ex (Some (model_lin 3)) False)
           (Some (scale 2 half_ex)) = Inr t
        \<and> shape t = [1, 1] \<and> entry t [0, 0] = 5"
    by simp
  from T h have g1: "get_corr eigh_diag (solver_ex (Some (model_lin 3)) True)
           (Some (stack2 half_ex half_ex))
       = bind_res (t_get_corr eigh_diag (model_lin 3) (scale 2 half_ex) [po_ex] True)
              (\<lambda>(t_ec, t_vc). case t_vc of None \<Rightarrow> Inl ValueError
                               | Some vc \<Rightarrow> Inr (item_or_array t_ec, vc))"
    and g2: "get_corr eigh_diag (solver_ex (Some (model_lin 3)) False) (Some (scale 2 half_ex))
       = get_corr eigh_diag (solver_ex (Some (model_lin 3)) True) (Some (stack2 half_ex half_ex))"
    by simp_all
  from t_get_corr_unit have 2: "\<exists>ec vc. get_corr eigh_diag (solver_ex (Some (model_lin 3)) True)
           (Some (stack2 half_ex half_ex)) = Inr (ec, vc)
        \<and> get_corr eigh_diag (solver_ex (Some (model_lin 3)) False)
           (Some (scale 2 half_ex)) = Inr (ec, vc)
        \<and> entry ec [] = 15 \<and> shape vc = [2, 2]
        \<and> entry vc [0, 0] = 3 \<and> entry vc [0, 1] = 6 \<and> entry vc [1, 1] = 12"
    unfolding g2 g1 by blast
  from 1 2 show ?thesis by blast
qed


subsection \<open>The hooks\<close>

lemma bind_res_eq_Inr: "bind_res m f = Inr y \<longleftrightarrow> (\<exists>x. m = Inr x \<and> f x = Inr y)"
  by (cases m) auto


















subsection \<open>The correction potential\<close>

lemma nth_append2:
  "length b = n \<Longrightarrow> (b @ [p, q]) ! n = p"
  "length b = n \<Longrightarrow> (b @ [p, q]) ! Suc n = q"
  by (auto simp: nth_append)

lemma inside_swap_append:
  "inside (b @ [p, q]) (pre @ [n, n]) = inside (b @ [q, p]) (pre @ [n, n])"
proof (cases "length b = length pre")
  case True
  then show ?thesis by (auto simp: inside_append)
next
  case False
  then have "\<not> inside (b @ [p, q]) (pre @ [n, n])" "\<not> inside (b @ [q, p]) (pre @ [n, n])"
    by (auto dest: inside_length)
  then show ?thesis by simp
qed

lemma inside_swap:
  assumes "drop (length sh - 2) sh = [n, n]"
  shows "inside (b @ [p, q]) sh = inside (b @ [q, p]) sh"
proof -
  have "take (length sh - 2) sh @ drop (length sh - 2) sh = sh"
    by (rule append_take_drop_id)
  with assms have sh: "sh = take (length sh - 2) sh @ [n, n]" by simp
  show ?thesis
    by (subst (1 2) sh) (rule inside_swap_append)
qed

lemma symeig_backward_sym:
  assumes "drop (length (shape pdm) - 2) (shape pdm) = [n, n]"
  shows "entry (symeig_backward eigh pdm g) (b @ [p, q])
           = entry (symeig_backward eigh pdm g) (b @ [q, p])"
  using inside_swap [OF assms, of b p q]
  by (simp add: symeig_backward_def Let_def nth_append2 add.commute)

lemma einsum_backward_sym:
  assumes sh: "drop (length sh - 2) sh = [n, n]"
    and g: "\<And>c a p q. entry g (c @ [a, p, q]) = entry g (c @ [a, q, p])"
    and sq: "shape po ! 2 = k"
  shows "entry (einsum_rap_rs_saq_backward po sh g po) (b @ [r, s])
           = entry (einsum_rap_rs_saq_backward po sh g po) (b @ [s, r])"
proof -
  have "(\<Sum>a<shape po ! 1. \<Sum>p<k. \<Sum>q<k.
            entry po [r, a, p] * entry g (b @ [a, p, q]) * entry po [s, a, q])
      = (\<Sum>a<shape po ! 1. \<Sum>p<k. \<Sum>q<k.
            entry po [s, a, p] * entry g (b @ [a, p, q]) * entry po [r, a, q])"
  proof (rule sum.cong [OF refl])
    fix a
    have "(\<Sum>p<k. \<Sum>q<k. entry po [s, a, p] * entry g (b @ [a, p, q]) * entry po [r, a, q])
        = (\<Sum>q<k. \<Sum>p<k. entry po [s, a, p] * entry g (b @ [a, p, q]) * entry po [r, a, q])"
      by (rule sum.swap)
    also have "\<dots> = (\<Sum>q<k. \<Sum>p<k. entry po [r, a, q] * entry g (b @ [a, q, p]) * entry po [s, a, p])"
      by (simp add: g [of b a] mult_ac)
    finally show "(\<Sum>p<k. \<Sum>q<k. entry po [r, a, p] * entry g (b @ [a, p, q]) * entry po [s, a, q])
        = (\<Sum>p<k. \<Sum>q<k. entry po [s, a, p] * entry g (b @ [a, p, q]) * entry po [r, a, q])"
      by simp
  qed
  then show ?thesis
    using inside_swap [OF sh, of b r s]
    by (simp add: einsum_rap_rs_saq_backward_def nth_append2 sq)
qed

lemma accumulate_sym:
  assumes sh: "drop (length sh - 2) sh = [n, n]"
    and ts: "\<And>t. t \<in> set ts \<Longrightarrow> entry t (b @ [r, s]) = entry t (b @ [s, r])"
  shows "entry (accumulate sh ts) (b @ [r, s]) = entry (accumulate sh ts) (b @ [s, r])"
proof -
  have "(\<Sum>t\<leftarrow>ts. entry t (b @ [r, s])) = (\<Sum>t\<leftarrow>ts. entry t (b @ [s, r]))"
    using ts by (induction ts) auto
  then show ?thesis
    using inside_swap [OF sh, of b r s] by (simp add: accumulate_def)
qed


lemma drop_last2: "drop (length (pre @ [a, k, k']) - 2) (pre @ [a, k, k']) = [k, k']"
  by simp

lemma einsum_Inr_shapes:
  assumes "einsum_rap_rs_saq po dm po = Inr pdm"
  shows "drop (length (shape dm) - 2) (shape dm) = [shape po ! 0, shape po ! 0]"
    and "drop (length (shape pdm) - 2) (shape pdm) = [shape po ! 2, shape po ! 2]"
proof -
  from assms show "drop (length (shape dm) - 2) (shape dm) = [shape po ! 0, shape po ! 0]"
    by (auto simp: einsum_rap_rs_saq_def split: if_splits)
  from assms obtain pre where "shape pdm = pre @ [shape po ! 1, shape po ! 2, shape po ! 2]"
    by (auto simp: einsum_rap_rs_saq_def split: if_splits)
  then show "drop (length (shape pdm) - 2) (shape pdm) = [shape po ! 2, shape po ! 2]"
    by (simp only: drop_last2)
qed

lemma set_map2:
  "t \<in> set (map2 f xs ys) \<Longrightarrow> \<exists>x y. x \<in> set xs \<and> y \<in> set ys \<and> t = f x y"
  by (auto dest: set_zip_leftD set_zip_rightD)

lemma eig_backward_sym:
  assumes ps: "\<And>pdm. pdm \<in> set pdm_shells \<Longrightarrow>
                 \<exists>k. drop (length (shape pdm) - 2) (shape pdm) = [k, k]"
    and g: "g \<in> set (eig_backward eigh pdm_shells g_ceig)"
  shows "entry g (b @ [p, q]) = entry g (b @ [q, p])"
proof -
  from g obtain pdm y where "pdm \<in> set pdm_shells" "g = symeig_backward eigh pdm y"
    unfolding eig_backward_def by (blast dest: set_map2)
  with ps show ?thesis
    by (auto intro: symeig_backward_sym)
qed

lemma accumulate_entry:
  assumes "inside ix sh"
  shows "entry (accumulate sh (map2 f xs ys)) ix = (\<Sum>(x, y)\<leftarrow>zip xs ys. entry (f x y) ix)"
proof -
  have "(\<lambda>t. entry t ix) \<circ> (\<lambda>(x, y). f x y) = (\<lambda>(x, y). entry (f x y) ix)"
    by (rule ext) (simp add: case_prod_unfold)
  then show ?thesis using assms by (simp add: accumulate_def)
qed

text \<open>
  Claim C3. Whenever \<open>t_get_corr\<close> returns a potential \<open>vc\<close>, it has the shape of the
  density matrix and is symmetric in its two last indices, for every density matrix,
  symmetric or not. \<open>vc\<close> is the unit cotangent taken back through the model, the
  eigensolver and the projection: with \<open>g\<close> the derivative of the energy with respect to
  the projected density of a shell, its entry at \<open>r\<close>, \<open>s\<close> is the sum over the shells
  of \<open>\<Sum>\<^sub>a\<^sub>p\<^sub>q O\<^sub>r\<^sub>a\<^sub>p g\<^sub>a\<^sub>p\<^sub>q O\<^sub>s\<^sub>a\<^sub>q\<close>. The symmetry rests on that of \<open>g\<close> in \<open>p\<close>
  and \<open>q\<close>, which the backward rule of the eigensolver gives.
\<close>

theorem correction_potential_symmetric:
  assumes run: "t_get_corr eigh m dm ovlp_shells True = Inr (ec, Some vc)"
  shows "(\<exists>ceig gedm.
            t_make_eig eigh dm ovlp_shells = Inr ceig \<and> forward m ceig = Inr ec
          \<and> grad_e_pdm eigh m dm ovlp_shells ceig ec = Inr gedm
          \<and> (\<forall>b r s. inside (b @ [r, s]) (shape dm) \<longrightarrow>
                entry vc (b @ [r, s])
                  = (\<Sum>(po, g)\<leftarrow>zip ovlp_shells gedm.
                       \<Sum>a<shape po ! 1. \<Sum>p<shape po ! 2. \<Sum>q<shape po ! 2.
                         entry po [r, a, p] * entry g (b @ [a, p, q]) * entry po [s, a, q])))
       \<and> shape vc = shape dm
       \<and> (\<forall>b r s. entry vc (b @ [r, s]) = entry vc (b @ [s, r]))"
proof -
  from run obtain ceig where
    eig: "t_make_eig eigh dm ovlp_shells = Inr ceig"
    and fw: "forward m ceig = Inr ec"
    and vc: "autograd_grad_dm eigh m dm ovlp_shells ceig ec = Inr vc"
    by (auto simp: t_get_corr_def bind_res_eq_Inr)
  from vc obtain gedm where
    ge: "grad_e_pdm eigh m dm ovlp_shells ceig ec = Inr gedm"
    and vc_def: "vc = accumulate (shape dm)
            (map2 (\<lambda>po g. einsum_rap_rs_saq_backward po (shape dm) g po) ovlp_shells gedm)"
    by (auto simp: autograd_grad_dm_def bind_res_eq_Inr)
  from ge obtain ps where
    ps: "t_make_pdm dm ovlp_shells = Inr ps"
    and gedm: "gedm = eig_backward eigh ps (grad_input m ceig (ones_like ec))"
    by (auto simp: grad_e_pdm_def bind_res_eq_Inr)
  from ps have rel: "list_all2 (\<lambda>po pdm. einsum_rap_rs_saq po dm po = Inr pdm) ovlp_shells ps"
    by (simp add: t_make_pdm_def collect_Inr_iff)
  from eig ps have "ps \<noteq> []"
    by (auto simp: t_make_eig_def bind_res_eq_Inr cat_last_def)
  with rel obtain po0 pdm0 where "einsum_rap_rs_saq po0 dm po0 = Inr pdm0"
    by (cases ps; cases ovlp_shells) auto
  then have dm: "drop (length (shape dm) - 2) (shape dm) = [shape po0 ! 0, shape po0 ! 0]"
    by (rule einsum_Inr_shapes)
  have sq: "\<exists>k. drop (length (shape pdm) - 2) (shape pdm) = [k, k]" if "pdm \<in> set ps" for pdm
  proof -
    from that rel obtain po where "einsum_rap_rs_saq po dm po = Inr pdm"
      by (auto simp: in_set_conv_nth list_all2_conv_all_nth)
    then show ?thesis by (blast dest: einsum_Inr_shapes(2))
  qed
  have sym: "entry vc (b @ [r, s]) = entry vc (b @ [s, r])" for b r s
    unfolding vc_def
  proof (rule accumulate_sym [OF dm])
    fix t
    assume "t \<in> set (map2 (\<lambda>po g. einsum_rap_rs_saq_backward po (shape dm) g po) ovlp_shells
               gedm)"
    then obtain po g where g: "g \<in> set gedm"
      and t: "t = einsum_rap_rs_saq_backward po (shape dm) g po"
      by (blast dest: set_map2)
    have "entry g (c @ [a, p, q]) = entry g (c @ [a, q, p])" for c a p q
      using eig_backward_sym [OF sq g [unfolded gedm], of "c @ [a]" p q] by simp
    then show "entry t (b @ [r, s]) = entry t (b @ [s, r])"
      unfolding t by (intro einsum_backward_sym [OF dm _ refl])
  qed
  have ent: "entry vc (b @ [r, s])
                  = (\<Sum>(po, g)\<leftarrow>zip ovlp_shells gedm.
                       \<Sum>a<shape po ! 1. \<Sum>p<shape po ! 2. \<Sum>q<shape po ! 2.
                         entry po [r, a, p] * entry g (b @ [a, p, q]) * entry po [s, a, q])"
    if ins: "inside (b @ [r, s]) (shape dm)" for b r s
    unfolding vc_def accumulate_entry [OF ins]
    using ins by (simp add: einsum_rap_rs_saq_backward_def nth_append2)
  have "shape vc = shape dm" by (simp add: vc_def accumulate_def)
  with eig fw ge ent sym show ?thesis by blast
qed

lemma t_get_corr_ex:
  "\<exists>ec vc. t_get_corr eigh_diag (model_lin 3) id2 [po_ex] True = Inr (ec, Some vc)
      \<and> shape ec = [1] \<and> entry ec [0] = 15 \<and> shape vc = [2, 2]
      \<and> entry vc [0, 0] = 3 \<and> entry vc [0, 1] = 6 \<and> entry vc [1, 1] = 12"
  by (simp add: t_get_corr_def t_make_eig_def t_make_pdm_def einsum_rap_rs_saq_def po_ex_def id2_def
      t_shell_eig_def cat_last_def eigh_diag_def matrix_at_def lessThan_Suc numeral_2_eq_2
      dref_of_def model_lin_def sum_all_def autograd_grad_dm_def grad_e_pdm_def eig_backward_def
      symeig_backward_def einsum_rap_rs_saq_backward_def accumulate_def ones_like_def Let_def)

text \<open>
  The theorem at the unit density matrix, the overlaps 1 and 2 and the model
  \<open>3 \<Sum> descriptor\<close>: the potential is 3 times the products of the overlaps.
\<close>

theorem correction_potential_symmetric_witness:
  "\<exists>ec vc. t_get_corr eigh_diag (model_lin 3) id2 [po_ex] True = Inr (ec, Some vc)
      \<and> shape vc = [2, 2]
      \<and> entry vc [0, 0] = 3 \<and> entry vc [0, 1] = 6 \<and> entry vc [1, 0] = 6 \<and> entry vc [1, 1] = 12"
proof -
  from t_get_corr_ex obtain ec vc where
    run: "t_get_corr eigh_diag (model_lin 3) id2 [po_ex] True = Inr (ec, Some vc)"
    and v: "shape vc = [2, 2]" "entry vc [0, 0] = 3" "entry vc [0, 1] = 6" "entry vc [1, 1] = 12"
    by blast
  from correction_potential_symmetric [OF run] have "entry vc ([] @ [0, 1]) = entry vc ([] @ [1, 0])"
    by blast
  with run v show ?thesis by simp
qed

subsection \<open>The two ways to the derivative with respect to the projected density\<close>

lemma einsum_2d_eq:
  "length (shape dm) = 2 \<Longrightarrow> (\<lambda>po. einsum_rap_rs_saq_2d po dm po) = (\<lambda>po. einsum_rap_rs_saq po dm po)"
  by (simp add: einsum_rap_rs_saq_2d_def)

text \<open>
  Claim C4, as the code has it. Let the density matrix have two axes, the model be a
  module with parameters whose call on the descriptor returns with and without a leading
  batch axis, with one element when the axis is there, and let the gradient of the model
  with respect to the descriptor be the same with and without that axis. Then
  \<open>t_make_grad_e_pdm\<close> and the steps of \<open>t_get_corr\<close> return the same derivative with
  respect to the projected density, the unit cotangent of the model taken back through
  the eigensolver of every shell; and whenever \<open>t_get_corr\<close> returns a potential, the
  potential is that derivative taken back through the projection.
\<close>

theorem grad_e_pdm_paths_agree:
  assumes dm: "length (shape dm) = 2"
    and md: "kind m = Module True"
    and eig: "t_make_eig eigh dm ovlp_shells = Inr ceig"
    and fa: "forward m ceig = Inr ec"
    and fb: "forward m (unsqueeze0 ceig) = Inr ec'"
    and one: "numel ec' = 1"
    and gr: "squeeze0 (grad_input m (unsqueeze0 ceig) (ones_like ec'))
               = grad_input m ceig (ones_like ec)"
  shows "(\<exists>ps. t_make_pdm dm ovlp_shells = Inr ps
            \<and> t_make_grad_e_pdm eigh m dm ovlp_shells
                = Inr (eig_backward eigh ps (grad_input m ceig (ones_like ec)))
            \<and> t_get_corr_grad_e_pdm eigh m dm ovlp_shells
                = Inr (eig_backward eigh ps (grad_input m ceig (ones_like ec))))
       \<and> (\<forall>e vc. t_get_corr eigh m dm ovlp_shells True = Inr (e, Some vc) \<longrightarrow>
             (\<exists>gedm. t_get_corr_grad_e_pdm eigh m dm ovlp_shells = Inr gedm
                \<and> vc = accumulate (shape dm)
                     (map2 (\<lambda>po g. einsum_rap_rs_saq_backward po (shape dm) g po)
                        ovlp_shells gedm)))"
proof (intro conjI allI impI)
  from eig obtain ps es where
    ps: "t_make_pdm dm ovlp_shells = Inr ps"
    and es: "collect (t_shell_eig eigh) ps = Inr es"
    and ct: "cat_last es = Inr ceig"
    by (auto simp: t_make_eig_def bind_res_eq_Inr)
  from ps have ps2: "collect (\<lambda>po. einsum_rap_rs_saq_2d po dm po) ovlp_shells = Inr ps"
    by (simp add: einsum_2d_eq [OF dm] t_make_pdm_def)
  have a: "t_get_corr_grad_e_pdm eigh m dm ovlp_shells
             = Inr (eig_backward eigh ps (grad_input m ceig (ones_like ec)))"
    by (simp add: t_get_corr_grad_e_pdm_def eig dref_of_def md fa grad_e_pdm_def ps)
  have b: "t_make_grad_e_pdm eigh m dm ovlp_shells
             = Inr (eig_backward eigh ps (grad_input m ceig (ones_like ec)))"
    by (simp add: t_make_grad_e_pdm_def ps2 es ct dref_of_module_def md fb one gr)
  from ps a b show "\<exists>ps. t_make_pdm dm ovlp_shells = Inr ps
            \<and> t_make_grad_e_pdm eigh m dm ovlp_shells
                = Inr (eig_backward eigh ps (grad_input m ceig (ones_like ec)))
            \<and> t_get_corr_grad_e_pdm eigh m dm ovlp_shells
                = Inr (eig_backward eigh ps (grad_input m ceig (ones_like ec)))"
    by blast
next
  fix e vc
  assume "t_get_corr eigh m dm ovlp_shells True = Inr (e, Some vc)"
  then show "\<exists>gedm. t_get_corr_grad_e_pdm eigh m dm ovlp_shells = Inr gedm
                \<and> vc = accumulate (shape dm)
                     (map2 (\<lambda>po g. einsum_rap_rs_saq_backward po (shape dm) g po)
                        ovlp_shells gedm)"
    by (auto simp: t_get_corr_def t_get_corr_grad_e_pdm_def autograd_grad_dm_def
        bind_res_eq_Inr)
qed

lemma make_eig_ex:
  "\<exists>t. t_make_eig eigh_diag id2 [po_ex] = Inr t \<and> shape t = [1, 1] \<and> entry t [0, 0] = 5"
  by (simp add: t_make_eig_def t_make_pdm_def einsum_rap_rs_saq_def po_ex_def id2_def
      t_shell_eig_def cat_last_def eigh_diag_def matrix_at_def lessThan_Suc numeral_2_eq_2)

lemma model_lin_transparent:
  "squeeze0 (grad_input (model_lin c) (unsqueeze0 x)
               (ones_like (tensor_of [1] f)))
     = grad_input (model_lin c) x (ones_like (tensor_of [1] f'))"
  by (simp add: model_lin_def squeeze0_def unsqueeze0_def ones_like_def)
     (rule tensor_of_cong, simp)

lemma make_grad_e_pdm_unfold:
  assumes dm: "length (shape dm) = 2"
    and eig: "t_make_eig eigh dm ovlp_shells = Inr ceig"
    and ps: "t_make_pdm dm ovlp_shells = Inr ps"
  shows "t_make_grad_e_pdm eigh m dm ovlp_shells =
     bind_res (dref_of_module m) (\<lambda>_.
     bind_res (forward m (unsqueeze0 ceig)) (\<lambda>ec.
     if numel ec \<noteq> 1 then Inl RuntimeError
     else Inr (eig_backward eigh ps
                 (squeeze0 (grad_input m (unsqueeze0 ceig) (ones_like ec))))))"
proof -
  from eig ps obtain es where
    es: "collect (t_shell_eig eigh) ps = Inr es" and ct: "cat_last es = Inr ceig"
    by (auto simp: t_make_eig_def bind_res_eq_Inr)
  from ps have ps2: "collect (\<lambda>po. einsum_rap_rs_saq_2d po dm po) ovlp_shells = Inr ps"
    by (simp add: einsum_2d_eq [OF dm] t_make_pdm_def)
  show ?thesis
    by (simp add: t_make_grad_e_pdm_def ps2 es ct)
qed

lemma get_corr_grad_unfold:
  assumes eig: "t_make_eig eigh dm ovlp_shells = Inr ceig"
    and ps: "t_make_pdm dm ovlp_shells = Inr ps"
  shows "t_get_corr_grad_e_pdm eigh m dm ovlp_shells =
     bind_res (dref_of m) (\<lambda>_.
     bind_res (forward m ceig) (\<lambda>ec.
     Inr (eig_backward eigh ps (grad_input m ceig (ones_like ec)))))"
  by (simp add: t_get_corr_grad_e_pdm_def eig grad_e_pdm_def ps)

lemma ex_setup:
  "\<exists>ceig ps. t_make_eig eigh_diag id2 [po_ex] = Inr ceig \<and> shape ceig = [1, 1]
      \<and> t_make_pdm id2 [po_ex] = Inr ps
      \<and> ps = [tensor_of [1, 1, 1] (\<lambda>ix. \<Sum>r<2. \<Sum>s<2.
                           entry po_ex [r, ix ! (length ix - 3), ix ! (length ix - 2)]
                         * entry id2 (take (length ix - 3) ix @ [r, s])
                         * entry po_ex [s, ix ! (length ix - 3), ix ! (length ix - 1)])]"
proof -
  from make_eig_ex obtain ceig where
    eig: "t_make_eig eigh_diag id2 [po_ex] = Inr ceig" and sh: "shape ceig = [1, 1]"
    by blast
  then obtain ps where ps: "t_make_pdm id2 [po_ex] = Inr ps"
    by (auto simp: t_make_eig_def bind_res_eq_Inr)
  then have "ps = [tensor_of [1, 1, 1] (\<lambda>ix. \<Sum>r<2. \<Sum>s<2.
                           entry po_ex [r, ix ! (length ix - 3), ix ! (length ix - 2)]
                         * entry id2 (take (length ix - 3) ix @ [r, s])
                         * entry po_ex [s, ix ! (length ix - 3), ix ! (length ix - 1)])]"
    by (simp add: t_make_pdm_def einsum_rap_rs_saq_def po_ex_def id2_def)
  with eig sh ps show ?thesis by blast
qed

text \<open>
  The theorem at the unit density matrix and the model \<open>3 \<Sum> descriptor\<close>, whose
  gradient is 3 whatever the axes of its input are.
\<close>

theorem grad_e_pdm_paths_agree_witness:
  "t_make_grad_e_pdm eigh_diag (model_lin 3) id2 [po_ex]
     = t_get_corr_grad_e_pdm eigh_diag (model_lin 3) id2 [po_ex]
   \<and> (\<exists>g. t_get_corr_grad_e_pdm eigh_diag (model_lin 3) id2 [po_ex] = Inr [g]
          \<and> shape g = [1, 1, 1] \<and> entry g [0, 0, 0] = 3)"
proof -
  from ex_setup obtain ceig ps where
    eig: "t_make_eig eigh_diag id2 [po_ex] = Inr ceig" and sh: "shape ceig = [1, 1]"
    and ps: "t_make_pdm id2 [po_ex] = Inr ps"
    and ps': "ps = [tensor_of [1, 1, 1] (\<lambda>ix. \<Sum>r<2. \<Sum>s<2.
                           entry po_ex [r, ix ! (length ix - 3), ix ! (length ix - 2)]
                         * entry id2 (take (length ix - 3) ix @ [r, s])
                         * entry po_ex [s, ix ! (length ix - 3), ix ! (length ix - 1)])]"
    by blast
  have fa: "forward (model_lin 3) ceig = Inr (tensor_of [1] (\<lambda>ix. 3 * sum_all ceig))"
    by (simp add: model_lin_def)
  have fb: "forward (model_lin 3) (unsqueeze0 ceig)
              = Inr (tensor_of [1] (\<lambda>ix. 3 * sum_all (unsqueeze0 ceig)))"
    by (simp add: model_lin_def)
  have "length (shape id2) = 2" "kind (model_lin 3) = Module True"
    "numel (tensor_of [1] (\<lambda>ix. 3 * sum_all (unsqueeze0 ceig))) = 1"
    by (simp_all add: id2_def model_lin_def numel_def)
  from grad_e_pdm_paths_agree [OF this(1,2) eig fa fb this(3) model_lin_transparent]
  have eq: "t_make_grad_e_pdm eigh_diag (model_lin 3) id2 [po_ex]
     = t_get_corr_grad_e_pdm eigh_diag (model_lin 3) id2 [po_ex]"
    by auto
  have "\<exists>g. t_get_corr_grad_e_pdm eigh_diag (model_lin 3) id2 [po_ex] = Inr [g]
          \<and> shape g = [1, 1, 1] \<and> entry g [0, 0, 0] = 3"
    unfolding get_corr_grad_unfold [OF eig ps]
    by (simp add: ps' sh dref_of_def eigh_diag_def matrix_at_def
        model_lin_def eig_backward_def symeig_backward_def ones_like_def Let_def)
  with eq show ?thesis by simp
qed

lemma model_rank_get_corr_path:
  "\<exists>g. t_get_corr_grad_e_pdm eigh_diag model_rank id2 [po_ex] = Inr [g] \<and> entry g [0, 0, 0] = 2"
proof -
  from ex_setup obtain ceig ps where
    eig: "t_make_eig eigh_diag id2 [po_ex] = Inr ceig" and sh: "shape ceig = [1, 1]"
    and ps: "t_make_pdm id2 [po_ex] = Inr ps"
    and ps': "ps = [tensor_of [1, 1, 1] (\<lambda>ix. \<Sum>r<2. \<Sum>s<2.
                           entry po_ex [r, ix ! (length ix - 3), ix ! (length ix - 2)]
                         * entry id2 (take (length ix - 3) ix @ [r, s])
                         * entry po_ex [s, ix ! (length ix - 3), ix ! (length ix - 1)])]"
    by blast
  show ?thesis
    unfolding get_corr_grad_unfold [OF eig ps]
    by (simp add: ps' sh dref_of_def eigh_diag_def matrix_at_def
        model_rank_def eig_backward_def ndim_def symeig_backward_def ones_like_def Let_def)
qed

lemma model_rank_grad_path:
  "\<exists>g. t_make_grad_e_pdm eigh_diag model_rank id2 [po_ex] = Inr [g] \<and> entry g [0, 0, 0] = 3"
proof -
  from ex_setup obtain ceig ps where
    eig: "t_make_eig eigh_diag id2 [po_ex] = Inr ceig" and sh: "shape ceig = [1, 1]"
    and ps: "t_make_pdm id2 [po_ex] = Inr ps"
    and ps': "ps = [tensor_of [1, 1, 1] (\<lambda>ix. \<Sum>r<2. \<Sum>s<2.
                           entry po_ex [r, ix ! (length ix - 3), ix ! (length ix - 2)]
                         * entry id2 (take (length ix - 3) ix @ [r, s])
                         * entry po_ex [s, ix ! (length ix - 3), ix ! (length ix - 1)])]"
    by blast
  have dm: "length (shape id2) = 2" by (simp add: id2_def)
  show ?thesis
    unfolding make_grad_e_pdm_unfold [OF dm eig ps]
    by (simp add: ps' sh dref_of_module_def unsqueeze0_def squeeze0_def numel_def
        eigh_diag_def matrix_at_def
        model_rank_def eig_backward_def ndim_def
        symeig_backward_def ones_like_def Let_def)
qed

lemma model_callable_get_corr_path:
  "\<exists>g. t_get_corr_grad_e_pdm eigh_diag (model_callable 3) id2 [po_ex] = Inr g"
proof -
  from make_eig_ex obtain ceig where
    eig: "t_make_eig eigh_diag id2 [po_ex] = Inr ceig" and sh: "shape ceig = [1, 1]"
    by blast
  then obtain ps where ps: "t_make_pdm id2 [po_ex] = Inr ps"
    by (auto simp: t_make_eig_def bind_res_eq_Inr)
  show ?thesis
    unfolding get_corr_grad_unfold [OF eig ps]
    by (simp add: dref_of_def model_callable_def model_lin_def)
qed

lemma model_callable_grad_path:
  "t_make_grad_e_pdm eigh_diag (model_callable 3) id2 [po_ex] = Inl AttributeError"
proof -
  from make_eig_ex obtain ceig where
    eig: "t_make_eig eigh_diag id2 [po_ex] = Inr ceig" and sh: "shape ceig = [1, 1]"
    by blast
  then obtain ps where ps: "t_make_pdm id2 [po_ex] = Inr ps"
    by (auto simp: t_make_eig_def bind_res_eq_Inr)
  have dm: "length (shape id2) = 2" by (simp add: id2_def)
  show ?thesis
    unfolding make_grad_e_pdm_unfold [OF dm eig ps]
    by (simp add: dref_of_module_def model_callable_def model_lin_def)
qed

text \<open>
  The claim as stated fails for two models. For the module \<open>x.dim() * x.sum()\<close> the
  steps of \<open>t_get_corr\<close> give the derivative 2 and \<open>t_make_grad_e_pdm\<close>, which adds a
  batch axis, gives 3. For a model that is a plain function \<open>t_get_corr\<close> returns and
  \<open>t_make_grad_e_pdm\<close> raises an AttributeError at \<open>model.parameters()\<close>.
\<close>

theorem grad_e_pdm_paths_counterexample:
  "t_make_grad_e_pdm eigh_diag model_rank id2 [po_ex]
     \<noteq> t_get_corr_grad_e_pdm eigh_diag model_rank id2 [po_ex]
   \<and> t_make_grad_e_pdm eigh_diag (model_callable 3) id2 [po_ex]
     \<noteq> t_get_corr_grad_e_pdm eigh_diag (model_callable 3) id2 [po_ex]"
  using model_rank_get_corr_path model_rank_grad_path model_callable_get_corr_path model_callable_grad_path by auto

subsection \<open>The coordinate derivative of the projected density\<close>

lemma inside_Cons2: "inside ix (n # sh) \<longleftrightarrow> (\<exists>i ix'. ix = i # ix' \<and> i < n \<and> inside ix' sh)"
  by (auto simp: inside_def list_all2_Cons2)

lemma einsum_xrap_rs_saq_ok:
  assumes "shape govx = [nx, nr, na, np]" "shape dm = [nr, ns]" "shape ovlp = [ns, na, nq]"
  shows "einsum_xrap_rs_saq govx dm ovlp =
           Inr (tensor_of [nx, na, np, nq]
                  (\<lambda>ix. \<Sum>r<nr. \<Sum>s<ns.
                           entry govx [ix ! 0, r, ix ! 1, ix ! 2]
                         * entry dm [r, s]
                         * entry ovlp [s, ix ! 1, ix ! 3]))"
  using assms by (simp add: einsum_xrap_rs_saq_def)

lemma slice_axis1_4:
  assumes "shape t = [nx, nr, na, np]"
  shows "slice_axis 1 bg ed t =
           Inr (tensor_of [nx, min ed nr - min bg nr, na, np]
                  (\<lambda>ix. entry t [ix ! 0, min bg nr + ix ! 1, ix ! 2, ix ! 3]))"
  using assms
  by (auto simp: slice_axis_def Let_def inside_Cons2 intro!: tensor_of_cong)

lemma slice_axis0_2:
  assumes "shape t = [nr, ns]"
  shows "slice_axis 0 bg ed t =
           Inr (tensor_of [min ed nr - min bg nr, ns]
                  (\<lambda>ix. entry t [min bg nr + ix ! 0, ix ! 1]))"
  using assms
  by (auto simp: slice_axis_def Let_def inside_Cons2 intro!: tensor_of_cong)

lemma sum_shift: "(\<Sum>r<hi - lo. f (lo + r)) = (\<Sum>r = lo..<hi. f (r::nat) :: real)"
proof (cases "lo \<le> hi")
  case True
  have "(\<Sum>r = lo..<hi. f r) = (\<Sum>r = 0 + lo..<(hi - lo) + lo. f r)"
    using True by simp
  also have "\<dots> = (\<Sum>r = 0..<hi - lo. f (r + lo))"
    by (rule sum.shift_bounds_nat_ivl)
  finally show ?thesis by (simp add: lessThan_atLeast0 add.commute)
next
  case False
  then show ?thesis by simp
qed

lemma sliced_einsum_gen:
  assumes o: "shape ovlp = [n, na, nq]" and dn: "shape dm ! 1 = n"
  shows "einsum_xrap_rs_saq
           (tensor_of [nx, hi - lo, na, np] (\<lambda>ix. entry govx [ix ! 0, lo + ix ! 1, ix ! 2, ix ! 3]))
           (tensor_of [hi - lo, n] (\<lambda>ix. entry dm [lo + ix ! 0, ix ! 1])) ovlp
       = Inr (tensor_of [nx, na, np, nq]
               (\<lambda>ix. grad_overlap_term govx dm ovlp lo hi (ix ! 0) (ix ! 1) (ix ! 2) (ix ! 3)))"
proof -
  let ?gs = "tensor_of [nx, hi - lo, na, np]
                  (\<lambda>ix. entry govx [ix ! 0, lo + ix ! 1, ix ! 2, ix ! 3])"
  let ?ds = "tensor_of [hi - lo, n] (\<lambda>ix. entry dm [lo + ix ! 0, ix ! 1])"
  have e: "einsum_xrap_rs_saq ?gs ?ds ovlp =
           Inr (tensor_of [nx, na, np, nq]
                  (\<lambda>ix. \<Sum>r<hi - lo. \<Sum>s<n.
                           entry ?gs [ix ! 0, r, ix ! 1, ix ! 2]
                         * entry ?ds [r, s]
                         * entry ovlp [s, ix ! 1, ix ! 3]))"
    by (rule einsum_xrap_rs_saq_ok) (simp_all add: o)
  have "tensor_of [nx, na, np, nq]
                  (\<lambda>ix. \<Sum>r<hi - lo. \<Sum>s<n.
                           entry ?gs [ix ! 0, r, ix ! 1, ix ! 2]
                         * entry ?ds [r, s]
                         * entry ovlp [s, ix ! 1, ix ! 3])
      = tensor_of [nx, na, np, nq]
               (\<lambda>ix. grad_overlap_term govx dm ovlp lo hi (ix ! 0) (ix ! 1) (ix ! 2) (ix ! 3))"
  proof (rule tensor_of_cong)
    fix ix assume "inside ix [nx, na, np, nq]"
    then obtain x a p q where ix: "ix = [x, a, p, q]" and b: "x < nx" "a < na" "p < np" "q < nq"
      by (auto simp: inside_Cons2)
    have "(\<Sum>r<hi - lo. \<Sum>s<n. entry ?gs [x, r, a, p] * entry ?ds [r, s] * entry ovlp [s, a, q])
        = (\<Sum>r<hi - lo. \<Sum>s<n. entry govx [x, lo + r, a, p] * entry dm [lo + r, s]
                                * entry ovlp [s, a, q])"
      using b by (intro sum.cong refl) simp
    also have "\<dots> = (\<Sum>r = lo..<hi. \<Sum>s<n.
                         entry govx [x, r, a, p] * entry dm [r, s] * entry ovlp [s, a, q])"
      by (rule sum_shift)
    finally show "(\<Sum>r<hi - lo. \<Sum>s<n.
                           entry ?gs [ix ! 0, r, ix ! 1, ix ! 2]
                         * entry ?ds [r, s]
                         * entry ovlp [s, ix ! 1, ix ! 3])
       = grad_overlap_term govx dm ovlp lo hi (ix ! 0) (ix ! 1) (ix ! 2) (ix ! 3)"
      using dn by (simp add: ix grad_overlap_term_def)
  qed
  with e show ?thesis by simp
qed

lemma sliced_einsum:
  assumes g: "shape govx = [nx, n, na, np]" and d: "shape dm = [n, n]"
    and o: "shape ovlp = [n, na, nq]"
  shows "bind_res (slice_axis 1 bg ed govx) (\<lambda>govx_ia.
         bind_res (slice_axis 0 bg ed dm) (\<lambda>dm_ia.
         einsum_xrap_rs_saq govx_ia dm_ia ovlp))
       = Inr (tensor_of [nx, na, np, nq]
               (\<lambda>ix. grad_overlap_term govx dm ovlp (min bg n) (min ed n)
                        (ix ! 0) (ix ! 1) (ix ! 2) (ix ! 3)))"
proof -
  have dn: "shape dm ! 1 = n" by (simp add: d)
  show ?thesis
    unfolding slice_axis1_4 [OF g] slice_axis0_2 [OF d] bind_res_simps
    by (rule sliced_einsum_gen [OF o dn])
qed


lemma gproj_ok:
  assumes g: "shape govx = [nx, n, na, np]" and d: "shape dm = [n, n]"
    and o: "shape ovlp = [n, na, nq]"
  shows "einsum_xrap_rs_saq govx dm ovlp
       = Inr (tensor_of [nx, na, np, nq]
               (\<lambda>ix. grad_overlap_term govx dm ovlp 0 n (ix ! 0) (ix ! 1) (ix ! 2) (ix ! 3)))"
  unfolding einsum_xrap_rs_saq_ok [OF g d o]
  by (simp add: grad_overlap_term_def d lessThan_atLeast0)

lemma for_each_append:
  "for_each f (xs @ ys) s = bind_res (for_each f xs s) (for_each f ys)"
  by (induction xs arbitrary: s) (auto simp: bind_res_def split: sum.splits)

lemma inside5:
  "inside ix [n1, n2, n3, n4, n5] \<longleftrightarrow>
     (\<exists>i x a p q. ix = [i, x, a, p, q] \<and> i < n1 \<and> x < n2 \<and> a < n3 \<and> p < n4 \<and> q < n5)"
  by (auto simp: inside_Cons2)

lemma atom_step:
  assumes g: "shape govx = [3, n, na, ss]" and d: "shape dm = [n, n]"
    and o: "shape ovlp = [n, na, ss]" and m: "natm m = na" and j: "j < na"
  shows "grad_pdm_x_atom m dm govx ovlp
           (tensor_of [3, na, ss, ss]
               (\<lambda>ix. grad_overlap_term govx dm ovlp 0 n (ix ! 0) (ix ! 1) (ix ! 2) (ix ! 3)))
           j
           (tensor_of [na, 3, na, ss, ss]
              (\<lambda>ix. if ix ! 0 < j
                     then pdm_x_unsym m govx dm ovlp (ix ! 0) (ix ! 1) (ix ! 2) (ix ! 3) (ix ! 4)
                     else 0))
       = Inr (tensor_of [na, 3, na, ss, ss]
              (\<lambda>ix. if ix ! 0 < Suc j
                     then pdm_x_unsym m govx dm ovlp (ix ! 0) (ix ! 1) (ix ! 2) (ix ! 3) (ix ! 4)
                     else 0))"
proof -
  obtain bg ed where sl: "aoslice m j = (bg, ed)" by (cases "aoslice m j")
  have a: "aoslice_by_atom m j = Inr (bg, ed)"
    using m j sl by (simp add: aoslice_by_atom_def)
  note se = sliced_einsum [OF g d o, of bg ed]
  have se': "bind_res (slice_axis 1 bg ed govx) (\<lambda>govx_ia.
         bind_res (slice_axis 0 bg ed dm) (\<lambda>dm_ia.
         bind_res (einsum_xrap_rs_saq govx_ia dm_ia ovlp) k))
       = k (tensor_of [3, na, ss, ss]
               (\<lambda>ix. grad_overlap_term govx dm ovlp (min bg n) (min ed n)
                        (ix ! 0) (ix ! 1) (ix ! 2) (ix ! 3)))" for k :: "tensor \<Rightarrow> error + tensor"
    using se by (auto simp: bind_res_def split: sum.splits)
  show ?thesis
    unfolding grad_pdm_x_atom_def a bind_res_simps prod.case se'
    using j
    apply (simp add: isub_atom_def iadd_block_def)
    apply (rule tensor_of_cong)
    apply (auto simp: inside5 pdm_x_unsym_def sl d less_Suc_eq)
    done
qed

lemma atom_loop:
  assumes g: "shape govx = [3, n, na, ss]" and d: "shape dm = [n, n]"
    and o: "shape ovlp = [n, na, ss]" and m: "natm m = na" and j: "j \<le> na"
  shows "for_each (grad_pdm_x_atom m dm govx ovlp
           (tensor_of [3, na, ss, ss]
               (\<lambda>ix. grad_overlap_term govx dm ovlp 0 n (ix ! 0) (ix ! 1) (ix ! 2) (ix ! 3))))
           [0..<j] (zeros [na, 3, na, ss, ss])
       = Inr (tensor_of [na, 3, na, ss, ss]
              (\<lambda>ix. if ix ! 0 < j
                     then pdm_x_unsym m govx dm ovlp (ix ! 0) (ix ! 1) (ix ! 2) (ix ! 3) (ix ! 4)
                     else 0))"
  using j
proof (induction j)
  case 0
  show ?case by (simp add: zeros_def)
next
  case (Suc j)
  then have j: "j < na" and IH: "for_each (grad_pdm_x_atom m dm govx ovlp
           (tensor_of [3, na, ss, ss]
               (\<lambda>ix. grad_overlap_term govx dm ovlp 0 n (ix ! 0) (ix ! 1) (ix ! 2) (ix ! 3))))
           [0..<j] (zeros [na, 3, na, ss, ss])
       = Inr (tensor_of [na, 3, na, ss, ss]
              (\<lambda>ix. if ix ! 0 < j
                     then pdm_x_unsym m govx dm ovlp (ix ! 0) (ix ! 1) (ix ! 2) (ix ! 3) (ix ! 4)
                     else 0))"
    by simp_all
  show ?case
    by (simp only: upt_Suc_append [OF le0] for_each_append IH bind_res_simps for_each.simps
        atom_step [OF g d o m j])
qed


lemma swap_last2_5 [simp]: "swap_last2 [i, x, a, p, q] = [i, x, a, q, p]"
  by (simp add: swap_last2_def)

lemma shell_result:
  assumes g: "shape govx = [3, n, na, ss]" and d: "shape dm = [n, n]"
    and o: "shape ovlp = [n, na, ss]" and m: "natm m = na"
  shows "grad_pdm_x_shell m dm (zeros [na, 3, na, ss, ss]) govx ovlp
       = Inr (tensor_of [na, 3, na, ss, ss]
              (\<lambda>ix. pdm_x_unsym m govx dm ovlp (ix ! 0) (ix ! 1) (ix ! 2) (ix ! 3) (ix ! 4)
                   + pdm_x_unsym m govx dm ovlp (ix ! 0) (ix ! 1) (ix ! 2) (ix ! 4) (ix ! 3)))"
  unfolding grad_pdm_x_shell_def gproj_ok [OF g d o] bind_res_simps m
    atom_loop [OF g d o m le_refl]
  apply (simp add: iadd_transpose_def swap_last2_def)
  apply (rule tensor_of_cong)
  apply (auto simp: inside5)
  done

lemma make_grad_pdm_x_result:
  assumes len: "length ipov_shells = length ovlp_shells"
    and sh: "\<forall>k<length ovlp_shells. \<exists>ss. shape (ovlp_shells ! k) = [n, na, ss]
                \<and> shape (ipov_shells ! k) = [3, n, na, ss]"
    and d: "shape dm = [n, n]" and m: "natm m = na"
  shows "t_make_grad_pdm_x m dm ovlp_shells ipov_shells
       = Inr (map2 (\<lambda>govx ovlp. tensor_of [na, 3, na, shape ovlp ! 2, shape ovlp ! 2]
              (\<lambda>ix. pdm_x_unsym m govx dm ovlp (ix ! 0) (ix ! 1) (ix ! 2) (ix ! 3) (ix ! 4)
                   + pdm_x_unsym m govx dm ovlp (ix ! 0) (ix ! 1) (ix ! 2) (ix ! 4) (ix ! 3)))
            ipov_shells ovlp_shells)"
proof -
  let ?R = "\<lambda>govx ovlp. tensor_of [na, 3, na, shape ovlp ! 2, shape ovlp ! 2]
              (\<lambda>ix. pdm_x_unsym m govx dm ovlp (ix ! 0) (ix ! 1) (ix ! 2) (ix ! 3) (ix ! 4)
                   + pdm_x_unsym m govx dm ovlp (ix ! 0) (ix ! 1) (ix ! 2) (ix ! 4) (ix ! 3))"
  let ?sec = "map (\<lambda>ov. last (shape ov)) ovlp_shells"
  let ?gd = "map (\<lambda>ss. zeros [na, 3, na, ss, ss]) ?sec"
  have ne: "shape ov \<noteq> []" if "ov \<in> set ovlp_shells" for ov
    using that sh by (auto simp: in_set_conv_nth)
  have sec: "collect (\<lambda>ov. if shape ov = [] then Inl IndexError else Inr (last (shape ov)))
               ovlp_shells = Inr ?sec"
    by (rule collect_all_ok) (simp add: ne)
  have each: "(case t of (gdmx, govx, ovlp) \<Rightarrow> grad_pdm_x_shell m dm gdmx govx ovlp)
                = Inr (case t of (gdmx, govx, ovlp) \<Rightarrow> ?R govx ovlp)"
    if t: "t \<in> set (zip ?gd (zip ipov_shells ovlp_shells))" for t
  proof -
    from t obtain k where k: "k < length ovlp_shells"
      and tk: "t = (?gd ! k, ipov_shells ! k, ovlp_shells ! k)"
      using len by (auto simp: in_set_zip)
    from sh k obtain ss where o: "shape (ovlp_shells ! k) = [n, na, ss]"
      and g: "shape (ipov_shells ! k) = [3, n, na, ss]" by blast
    have gd: "?gd ! k = zeros [na, 3, na, ss, ss]" using k o by simp
    show ?thesis
      unfolding tk prod.case gd using shell_result [OF g d o m] by (simp add: o)
  qed
  have run: "collect (\<lambda>(gdmx, govx, ovlp). grad_pdm_x_shell m dm gdmx govx ovlp)
               (zip ?gd (zip ipov_shells ovlp_shells))
           = Inr (map (\<lambda>(gdmx, govx, ovlp). ?R govx ovlp) (zip ?gd (zip ipov_shells ovlp_shells)))"
    by (rule collect_all_ok) (rule each)
  have "map (\<lambda>(gdmx, govx, ovlp). ?R govx ovlp) (zip ?gd (zip ipov_shells ovlp_shells))
          = map2 ?R ipov_shells ovlp_shells"
    using len by (intro nth_equalityI) simp_all
  then show ?thesis
    unfolding t_make_grad_pdm_x_def sec bind_res_simps Let_def run m
    using len by simp
qed


text \<open>
  Claim C5. For overlap shells of shape \<open>[n, na, ss]\<close>, derivative overlaps of shape
  \<open>[3, n, na, ss]\<close>, a density matrix of shape \<open>[n, n]\<close> and a molecule of \<open>na\<close>
  atoms, \<open>t_make_grad_pdm_x\<close> raises nothing and returns one tensor per shell, of shape
  \<open>[na, 3, na, ss, ss]\<close>. Its entry for the moving atom \<open>ia\<close>, the direction \<open>x\<close>,
  the projection atom \<open>a\<close> and the local functions \<open>p\<close>, \<open>q\<close> is \<open>T p q + T q p\<close>,
  where \<open>T\<close> is the contraction over all orbitals, present only when \<open>a = ia\<close>, minus
  the contraction over the orbitals in the slice of the atom \<open>ia\<close>. So every returned
  tensor is symmetric in its two last indices.
\<close>

theorem make_grad_pdm_x_contributions:
  assumes len: "length ipov_shells = length ovlp_shells"
    and sh: "\<forall>k<length ovlp_shells. \<exists>ss. shape (ovlp_shells ! k) = [n, na, ss]
                \<and> shape (ipov_shells ! k) = [3, n, na, ss]"
    and d: "shape dm = [n, n]" and m: "natm m = na"
  shows "\<exists>gs. t_make_grad_pdm_x m dm ovlp_shells ipov_shells = Inr gs
           \<and> length gs = length ovlp_shells
           \<and> (\<forall>k<length ovlp_shells.
                 shape (gs ! k)
                   = [na, 3, na, shape (ovlp_shells ! k) ! 2, shape (ovlp_shells ! k) ! 2]
               \<and> (\<forall>ia x a p q. inside [ia, x, a, p, q] (shape (gs ! k)) \<longrightarrow>
                     entry (gs ! k) [ia, x, a, p, q]
                       = pdm_x_unsym m (ipov_shells ! k) dm (ovlp_shells ! k) ia x a p q
                       + pdm_x_unsym m (ipov_shells ! k) dm (ovlp_shells ! k) ia x a q p
                   \<and> entry (gs ! k) [ia, x, a, p, q] = entry (gs ! k) [ia, x, a, q, p]
                   \<and> pdm_x_unsym m (ipov_shells ! k) dm (ovlp_shells ! k) ia x a p q
                       = (if a = ia
                          then grad_overlap_term (ipov_shells ! k) dm (ovlp_shells ! k)
                                 0 n x a p q
                          else 0)
                       - grad_overlap_term (ipov_shells ! k) dm (ovlp_shells ! k)
                           (min (fst (aoslice m ia)) n) (min (snd (aoslice m ia)) n) x a p q))"
proof -
  let ?R = "\<lambda>govx ovlp. tensor_of [na, 3, na, shape ovlp ! 2, shape ovlp ! 2]
              (\<lambda>ix. pdm_x_unsym m govx dm ovlp (ix ! 0) (ix ! 1) (ix ! 2) (ix ! 3) (ix ! 4)
                   + pdm_x_unsym m govx dm ovlp (ix ! 0) (ix ! 1) (ix ! 2) (ix ! 4) (ix ! 3))"
  have run: "t_make_grad_pdm_x m dm ovlp_shells ipov_shells
               = Inr (map2 ?R ipov_shells ovlp_shells)"
    by (rule make_grad_pdm_x_result [OF len sh d m])
  have nth: "map2 ?R ipov_shells ovlp_shells ! k = ?R (ipov_shells ! k) (ovlp_shells ! k)"
    if "k < length ovlp_shells" for k
    using that len by simp
  have un: "pdm_x_unsym m govx dm ovlp ia x a p q
              = (if a = ia then grad_overlap_term govx dm ovlp 0 n x a p q else 0)
                - grad_overlap_term govx dm ovlp
                    (min (fst (aoslice m ia)) n) (min (snd (aoslice m ia)) n) x a p q"
    for govx ovlp ia x a p q
    by (simp add: pdm_x_unsym_def d case_prod_unfold)
  show ?thesis
    unfolding run
    by (intro exI [of _ "map2 ?R ipov_shells ovlp_shells"] conjI refl allI impI)
       (auto simp: len nth un)
qed


lemma grad_overlap_term_alt:
  "grad_overlap_term govx dm ovlp lo hi x a p q =
     (\<Sum>r<hi - lo. \<Sum>s<shape dm ! 1.
        entry govx [x, lo + r, a, p] * entry dm [lo + r, s] * entry ovlp [s, a, q])"
  unfolding grad_overlap_term_def by (rule sum_shift [symmetric])

lemma got_ex:
  "grad_overlap_term govx2_ex id2 po2_ex 0 2 0 0 0 1 = 17"
  "grad_overlap_term govx2_ex id2 po2_ex 0 1 0 0 0 1 = 5"
  "grad_overlap_term govx2_ex id2 po2_ex 0 2 0 0 1 0 = 10"
  "grad_overlap_term govx2_ex id2 po2_ex 0 1 0 0 1 0 = 2"
  "grad_overlap_term govx2_ex id2 po2_ex 0 1 0 1 0 1 = 7"
  "grad_overlap_term govx2_ex id2 po2_ex 0 1 0 1 1 0 = 6"
  "grad_overlap_term govx2_ex id2 po2_ex 0 2 2 1 1 0 = 66"
  "grad_overlap_term govx2_ex id2 po2_ex 1 2 2 1 1 0 = 48"
  "grad_overlap_term govx2_ex id2 po2_ex 0 2 2 1 0 1 = 69"
  "grad_overlap_term govx2_ex id2 po2_ex 1 2 2 1 0 1 = 48"
  by (simp_all add: grad_overlap_term_alt govx2_ex_def id2_def po2_ex_def
      lessThan_Suc numeral_2_eq_2)

lemma unsym_ex:
  "pdm_x_unsym mol2_ex govx2_ex id2 po2_ex 0 0 0 0 1 = 12"
  "pdm_x_unsym mol2_ex govx2_ex id2 po2_ex 0 0 0 1 0 = 8"
  "pdm_x_unsym mol2_ex govx2_ex id2 po2_ex 0 0 1 0 1 = - 7"
  "pdm_x_unsym mol2_ex govx2_ex id2 po2_ex 0 0 1 1 0 = - 6"
  "pdm_x_unsym mol2_ex govx2_ex id2 po2_ex 1 2 1 1 0 = 18"
  "pdm_x_unsym mol2_ex govx2_ex id2 po2_ex 1 2 1 0 1 = 21"
proof -
  have s: "shape id2 ! 0 = 2" by (simp add: id2_def)
  have a: "aoslice mol2_ex 0 = (0, Suc 0)" "aoslice mol2_ex (Suc 0) = (Suc 0, 2)"
    by (simp_all add: mol2_ex_def)
  show "pdm_x_unsym mol2_ex govx2_ex id2 po2_ex 0 0 0 0 1 = 12"
    "pdm_x_unsym mol2_ex govx2_ex id2 po2_ex 0 0 0 1 0 = 8"
    "pdm_x_unsym mol2_ex govx2_ex id2 po2_ex 0 0 1 0 1 = - 7"
    "pdm_x_unsym mol2_ex govx2_ex id2 po2_ex 0 0 1 1 0 = - 6"
    "pdm_x_unsym mol2_ex govx2_ex id2 po2_ex 1 2 1 1 0 = 18"
    "pdm_x_unsym mol2_ex govx2_ex id2 po2_ex 1 2 1 0 1 = 21"
    using got_ex [unfolded One_nat_def] by (simp_all add: pdm_x_unsym_def s a)
qed

text \<open>
  The theorem at two atoms with one orbital each and the unit density matrix. For the
  moving atom 0 and the projection atom 0 only the orbital of atom 1 is left,
  \<open>T 0 1 = 12\<close> and \<open>T 1 0 = 8\<close>, and both entries are 20; for the projection atom 1 only
  the orbital of atom 0 enters, with the minus sign.
\<close>

theorem make_grad_pdm_x_contributions_witness:
  "\<exists>g. t_make_grad_pdm_x mol2_ex id2 [po2_ex] [govx2_ex] = Inr [g]
      \<and> shape g = [2, 3, 2, 2, 2]
      \<and> entry g [0, 0, 0, 0, 1] = 20 \<and> entry g [0, 0, 0, 1, 0] = 20
      \<and> entry g [0, 0, 1, 0, 1] = - 13 \<and> entry g [1, 2, 1, 1, 0] = 39"
proof -
  have len: "length [govx2_ex] = length [po2_ex]" by simp
  have sh: "\<forall>k<length [po2_ex]. \<exists>ss. shape ([po2_ex] ! k) = [2, 2, ss]
                \<and> shape ([govx2_ex] ! k) = [3, 2, 2, ss]"
    by (simp add: po2_ex_def govx2_ex_def)
  have d: "shape id2 = [2, 2]" by (simp add: id2_def)
  have m: "natm mol2_ex = 2" by (simp add: mol2_ex_def)
  from make_grad_pdm_x_contributions [OF len sh d m] obtain gs where
    run: "t_make_grad_pdm_x mol2_ex id2 [po2_ex] [govx2_ex] = Inr gs"
    and l: "length gs = length [po2_ex]"
    and e: "\<forall>k<length [po2_ex].
                 shape (gs ! k) = [2, 3, 2, shape ([po2_ex] ! k) ! 2, shape ([po2_ex] ! k) ! 2]
               \<and> (\<forall>ia x a p q. inside [ia, x, a, p, q] (shape (gs ! k)) \<longrightarrow>
                     entry (gs ! k) [ia, x, a, p, q]
                       = pdm_x_unsym mol2_ex ([govx2_ex] ! k) id2 ([po2_ex] ! k) ia x a p q
                       + pdm_x_unsym mol2_ex ([govx2_ex] ! k) id2 ([po2_ex] ! k) ia x a q p)"
    by blast
  from l obtain g where gs: "gs = [g]"
    by (cases gs) auto
  from e have shp: "shape g = [2, 3, 2, 2, 2]"
    by (simp add: gs po2_ex_def)
  from e have ent: "inside [ia, x, a, p, q] [2, 3, 2, 2, 2] \<longrightarrow>
                     entry g [ia, x, a, p, q]
                       = pdm_x_unsym mol2_ex govx2_ex id2 po2_ex ia x a p q
                       + pdm_x_unsym mol2_ex govx2_ex id2 po2_ex ia x a q p" for ia x a p q
    by (simp add: gs shp)
  from ent [of 0 0 0 0 1] ent [of 0 0 0 1 0] ent [of 0 0 1 0 1] ent [of 1 2 1 1 0]
  have "entry g [0, 0, 0, 0, 1] = 20" "entry g [0, 0, 0, 1, 0] = 20"
    "entry g [0, 0, 1, 0, 1] = - 13" "entry g [1, 2, 1, 1, 0] = 39"
    by (simp_all add: unsym_ex [unfolded One_nat_def])
  with run gs shp show ?thesis by simp
qed


end
